theory Spec2Isabelle
  imports Main
begin

section \<open>JavaScript values\<close>

text \<open>
  The services work on untyped JavaScript values. A value is a tree: the primitives, arrays,
  plain objects (their own enumerable string keys with the values, in property order) and
  binary objects (\<open>Blob\<close>, \<open>File\<close>), which have no own enumerable key; \<open>JBlob n\<close> is
  a binary object of \<open>n\<close> bytes. Strings are lists of characters and \<open>length\<close> is the
  \<open>length\<close> property; numbers are integers. Cyclic structures have no representation.
\<close>

datatype jv =
    JUndefined
  | JNull
  | JBool bool
  | JNum int
  | JStr string
  | JArr "jv list"
  | JObj "(string \<times> jv) list"
  | JBlob nat

text \<open>\<open>!v\<close> is \<open>\<not> truthy v\<close>.\<close>

fun truthy :: "jv \<Rightarrow> bool" where
  "truthy JUndefined = False"
| "truthy JNull = False"
| "truthy (JBool b) = b"
| "truthy (JNum n) = (n \<noteq> 0)"
| "truthy (JStr s) = (s \<noteq> [])"
| "truthy (JArr xs) = True"
| "truthy (JObj es) = True"
| "truthy (JBlob n) = True"

text \<open>\<open>typeof v === 'object'\<close> for a value that is not \<open>null\<close>.\<close>

fun is_object :: "jv \<Rightarrow> bool" where
  "is_object (JArr xs) = True"
| "is_object (JObj es) = True"
| "is_object (JBlob n) = True"
| "is_object v = False"

text \<open>Property read \<open>v.k\<close> for a name that no prototype defines: an own property or \<open>undefined\<close>.\<close>

fun getProp :: "jv \<Rightarrow> string \<Rightarrow> jv" where
  "getProp (JObj es) k = (case map_of es k of Some v \<Rightarrow> v | None \<Rightarrow> JUndefined)"
| "getProp v k = JUndefined"

section \<open>Characters and regular expressions\<close>

text \<open>
  A character is a code unit below 256, which is the character of Unicode with that code;
  a string with any other code unit has no representation. The case mapping, the character
  classes and the white space of \<open>trim\<close> are those of JavaScript on these characters.
\<close>

definition upper_chars :: string where
  "upper_chars = ''ABCDEFGHIJKLMNOPQRSTUVWXYZ''"

definition lower_chars :: string where
  "lower_chars = ''abcdefghijklmnopqrstuvwxyz''"

definition digit_chars :: string where
  "digit_chars = ''0123456789''"

text \<open>
  The letters with a code from 192 to 222, but for the multiplication sign 215, and their
  lower-case forms 32 places further on.
\<close>

definition latin_upper_chars :: string where
  "latin_upper_chars =
     [CHR 0xC0, CHR 0xC1, CHR 0xC2, CHR 0xC3, CHR 0xC4, CHR 0xC5, CHR 0xC6, CHR 0xC7,
      CHR 0xC8, CHR 0xC9, CHR 0xCA, CHR 0xCB, CHR 0xCC, CHR 0xCD, CHR 0xCE, CHR 0xCF,
      CHR 0xD0, CHR 0xD1, CHR 0xD2, CHR 0xD3, CHR 0xD4, CHR 0xD5, CHR 0xD6, CHR 0xD8,
      CHR 0xD9, CHR 0xDA, CHR 0xDB, CHR 0xDC, CHR 0xDD, CHR 0xDE]"

definition latin_lower_chars :: string where
  "latin_lower_chars =
     [CHR 0xE0, CHR 0xE1, CHR 0xE2, CHR 0xE3, CHR 0xE4, CHR 0xE5, CHR 0xE6, CHR 0xE7,
      CHR 0xE8, CHR 0xE9, CHR 0xEA, CHR 0xEB, CHR 0xEC, CHR 0xED, CHR 0xEE, CHR 0xEF,
      CHR 0xF0, CHR 0xF1, CHR 0xF2, CHR 0xF3, CHR 0xF4, CHR 0xF5, CHR 0xF6, CHR 0xF8,
      CHR 0xF9, CHR 0xFA, CHR 0xFB, CHR 0xFC, CHR 0xFD, CHR 0xFE]"

text \<open>\<open>c.toLowerCase()\<close> for one character.\<close>

definition toLowerChar :: "char \<Rightarrow> char" where
  "toLowerChar c =
     (case map_of (zip (upper_chars @ latin_upper_chars) (lower_chars @ latin_lower_chars)) c of
        Some l \<Rightarrow> l
      | None \<Rightarrow> c)"

definition toLowerCase :: "string \<Rightarrow> string" where
  "toLowerCase s = map toLowerChar s"

text \<open>\<open>s.startsWith(p)\<close>\<close>

fun startsWith :: "string \<Rightarrow> string \<Rightarrow> bool" where
  "startsWith s [] = True"
| "startsWith [] (p # ps) = False"
| "startsWith (c # cs) (p # ps) = (c = p \<and> startsWith cs ps)"

text \<open>
  The fragment of the regular expressions that the services use, all of them with the
  flag \<open>i\<close>: a literal character matches in either case, \<open>Word\<close> is \<open>\w\<close>, \<open>Space\<close> is \<open>\s\<close>,
  \<open>Dot\<close> is \<open>.\<close> (any character but a line terminator), \<open>Star\<close> is the greedy \<open>*\<close> and
  \<open>Lazy\<close> is \<open>*?\<close>. No letter above 127 has an upper-case form below 128, so a literal of
  the patterns, which are all below 128, matches its two cases only. White space is the
  space, the controls from 9 to 13 and the no-break space 160.
\<close>

datatype cc = Lit char | OneOf "char list" | NotOf "char list" | Word | Space | Dot

datatype rx = Eps | Atom cc | Seq rx rx | Alt rx rx | Star rx | Lazy rx

fun cc_match :: "cc \<Rightarrow> char \<Rightarrow> bool" where
  "cc_match (Lit a) c = (toLowerChar a = toLowerChar c)"
| "cc_match (OneOf as) c = (c \<in> set as)"
| "cc_match (NotOf as) c = (c \<notin> set as)"
| "cc_match Word c = (c \<in> set (upper_chars @ lower_chars @ digit_chars @ ''_''))"
| "cc_match Space c =
     (c \<in> set [CHR '' '', CHR 0x09, CHR 0x0A, CHR 0x0B, CHR 0x0C, CHR 0x0D, CHR 0xA0])"
| "cc_match Dot c = (c \<notin> set [CHR 0x0A, CHR 0x0D])"

text \<open>
  \<open>rx_ends r s\<close> lists what is left of \<open>s\<close> after each match of \<open>r\<close> at the start of
  \<open>s\<close>, in the order in which the backtracking matcher tries them, so the head is the
  match that the engine reports. An iteration of a star that consumes nothing is dropped.
\<close>

fun rx_ends :: "rx \<Rightarrow> string \<Rightarrow> string list" where
  "rx_ends Eps s = [s]"
| "rx_ends (Atom c) s = (case s of [] \<Rightarrow> [] | x # xs \<Rightarrow> if cc_match c x then [xs] else [])"
| "rx_ends (Seq a b) s = concat (map (rx_ends b) (rx_ends a s))"
| "rx_ends (Alt a b) s = rx_ends a s @ rx_ends b s"
| "rx_ends (Star a) s =
     concat (map (\<lambda>t. if length t < length s then rx_ends (Star a) t else []) (rx_ends a s)) @ [s]"
| "rx_ends (Lazy a) s =
     s # concat (map (\<lambda>t. if length t < length s then rx_ends (Lazy a) t else []) (rx_ends a s))"

fun lit :: "string \<Rightarrow> rx" where
  "lit [] = Eps"
| "lit (c # cs) = Seq (Atom (Lit c)) (lit cs)"

fun seqs :: "rx list \<Rightarrow> rx" where
  "seqs [] = Eps"
| "seqs (r # rs) = Seq r (seqs rs)"

fun alts :: "rx list \<Rightarrow> rx" where
  "alts [] = Atom (OneOf [])"
| "alts [r] = r"
| "alts (r # rs) = Alt r (alts rs)"

text \<open>\<open>r+\<close>\<close>

definition Plus :: "rx \<Rightarrow> rx" where
  "Plus r = Seq r (Star r)"

text \<open>
  The leftmost match: the number of characters before it and what is left of the string
  after it.
\<close>

fun rx_find :: "rx \<Rightarrow> string \<Rightarrow> (nat \<times> string) option" where
  "rx_find r s =
     (case rx_ends r s of
        e # es \<Rightarrow> Some (0, e)
      | [] \<Rightarrow> (case s of
                 [] \<Rightarrow> None
               | c # t \<Rightarrow> map_option (\<lambda>(n, e). (Suc n, e)) (rx_find r t)))"

text \<open>\<open>r.test(s)\<close> for a regular expression without the flag \<open>g\<close>.\<close>

definition rx_test :: "rx \<Rightarrow> string \<Rightarrow> bool" where
  "rx_test r s = (rx_find r s \<noteq> None)"

text \<open>
  A regular expression object with the flag \<open>g\<close> keeps \<open>lastIndex\<close> between calls of
  \<open>test\<close>: the search starts there, a match moves it to the end of the match and a failure
  puts it back to 0.
\<close>

record regexp =
  source :: rx
  lastIndex :: nat

definition test_g :: "regexp \<Rightarrow> string \<Rightarrow> bool \<times> regexp" where
  "test_g p s =
     (if lastIndex p > length s then (False, p\<lparr>lastIndex := 0\<rparr>)
      else (case rx_find (source p) (drop (lastIndex p) s) of
              None \<Rightarrow> (False, p\<lparr>lastIndex := 0\<rparr>)
            | Some (n, e) \<Rightarrow> (True, p\<lparr>lastIndex := length s - length e\<rparr>)))"

text \<open>\<open>ps.some(p => p.test(s))\<close>: stops at the first pattern that matches.\<close>

fun some_test :: "regexp list \<Rightarrow> string \<Rightarrow> bool \<times> regexp list" where
  "some_test [] s = (False, [])"
| "some_test (p # ps) s =
     (case test_g p s of
        (True, p') \<Rightarrow> (True, p' # ps)
      | (False, p') \<Rightarrow> (case some_test ps s of (b, ps') \<Rightarrow> (b, p' # ps')))"

text \<open>
  \<open>s.replace(r, '')\<close> for a regular expression with the flag \<open>g\<close>: every match, from the
  left, is removed, and the search goes on after the match.
\<close>

function rx_remove :: "rx \<Rightarrow> string \<Rightarrow> string" where
  "rx_remove r s =
     (case rx_ends r s of
        e # es \<Rightarrow>
          (if length e < length s then rx_remove r e
           else (case s of [] \<Rightarrow> [] | c # t \<Rightarrow> c # rx_remove r t))
      | [] \<Rightarrow> (case s of [] \<Rightarrow> [] | c # t \<Rightarrow> c # rx_remove r t))"
  by pat_completeness auto
termination
  by (relation "measure (\<lambda>(r, s). length s)") auto

text \<open>\<open>s.replace(/c/g, rep)\<close> for one literal character \<open>c\<close>.\<close>

definition replace_char :: "char \<Rightarrow> string \<Rightarrow> string \<Rightarrow> string" where
  "replace_char c rep s = concat (map (\<lambda>x. if x = c then rep else [x]) s)"

section \<open>SecurityService\<close>

subsection \<open>Constants\<close>

definition quote_chars :: string where
  "quote_chars = [CHR 0x22, CHR 0x27]"

definition XSS_PATTERNS :: "rx list" where
  "XSS_PATTERNS =
    [seqs [lit ''<script'', Star (Atom (NotOf ''>'')), lit ''>'', Lazy (Atom Dot), lit ''</script>''],
     seqs [lit ''<iframe'', Star (Atom (NotOf ''>'')), lit ''>'', Lazy (Atom Dot), lit ''</iframe>''],
     seqs [lit ''<object'', Star (Atom (NotOf ''>'')), lit ''>'', Lazy (Atom Dot), lit ''</object>''],
     seqs [lit ''<embed'', Star (Atom (NotOf ''>'')), lit ''>''],
     seqs [lit ''<link'', Star (Atom (NotOf ''>'')), lit ''>''],
     seqs [lit ''<meta'', Star (Atom (NotOf ''>'')), lit ''>''],
     lit ''javascript:'',
     lit ''vbscript:'',
     lit ''data:text/html'',
     seqs [lit ''on'', Plus (Atom Word), Star (Atom Space), lit ''='']]"

text \<open>
  The pattern of \<open>sanitizeHtml\<close> for dangerous attributes,
  \<^verbatim>\<open>/\s*(on\w+|href|src)\s*=\s*["'][^"']*["']/gi\<close>.
\<close>

definition ATTRIBUTE_PATTERN :: rx where
  "ATTRIBUTE_PATTERN =
     seqs [Star (Atom Space),
           alts [Seq (lit ''on'') (Plus (Atom Word)), lit ''href'', lit ''src''],
           Star (Atom Space), lit ''='', Star (Atom Space),
           Atom (OneOf quote_chars), Star (Atom (NotOf quote_chars)), Atom (OneOf quote_chars)]"

text \<open>
  The first injection pattern is
  \<^verbatim>\<open>/('|(\\')|(;)|(\\);)|(\|)|(\*)|(%27)|(%3B)|(\+)/gi\<close>: a quote, a backslash and
  a quote, a semicolon, a backslash and a semicolon, a bar, a star, \<open>%27\<close>, \<open>%3B\<close> or a
  plus sign.
\<close>

definition INJECTION_SOURCES :: "rx list" where
  "INJECTION_SOURCES =
    [alts [lit [CHR 0x27], lit [CHR 0x5C, CHR 0x27], lit '';'', lit [CHR 0x5C, CHR '';''],
           lit ''|'', lit ''*'', lit ''%27'', lit ''%3B'', lit ''+''],
     seqs [lit ''exec'', Plus (Alt (Atom Space) (lit ''+'')), Alt (lit ''s'') (lit ''x''),
           lit ''p'', Plus (Atom Word)],
     seqs [lit ''union'', Star (Atom Dot), lit ''select''],
     seqs [lit ''insert'', Star (Atom Dot), lit ''into''],
     seqs [lit ''delete'', Star (Atom Dot), lit ''from''],
     seqs [lit ''update'', Star (Atom Dot), lit ''set''],
     seqs [lit ''drop'', Star (Atom Dot), lit ''table'']]"

text \<open>
  \<open>INJECTION_PATTERNS\<close> is a field of the service: seven regular expression objects with the
  flag \<open>g\<close>, which \<open>validateString\<close> calls \<open>test\<close> on. The state of the validators is the
  list of these objects; in a service that has just been created every \<open>lastIndex\<close> is 0.
\<close>

type_synonym patterns = "regexp list"

definition INJECTION_PATTERNS :: patterns where
  "INJECTION_PATTERNS = map (\<lambda>r. \<lparr>source = r, lastIndex = 0\<rparr>) INJECTION_SOURCES"

definition DANGEROUS_KEYS :: "string list" where
  "DANGEROUS_KEYS =
    [''__proto__'', ''constructor'', ''prototype'', ''__defineGetter__'', ''__defineSetter__'',
     ''__lookupGetter__'', ''__lookupSetter__'', ''toString'', ''valueOf'', ''hasOwnProperty'']"

definition MAX_FILE_SIZE :: nat where
  "MAX_FILE_SIZE = 10 * 1024 * 1024"

definition MAX_STRING_LENGTH :: nat where
  "MAX_STRING_LENGTH = 10000"

definition MAX_ARRAY_LENGTH :: nat where
  "MAX_ARRAY_LENGTH = 1000"

definition MAX_OBJECT_DEPTH :: nat where
  "MAX_OBJECT_DEPTH = 10"

subsection \<open>Errors and results\<close>

text \<open>
  The messages of the validators and the errors that the services throw. The constructors
  stand for the message texts of the source; a parameter is the part of the text that the
  source computes.
\<close>

datatype verr =
    NullOrUndefined            \<comment> \<open>Value cannot be null or undefined\<close>
  | NotAString                 \<comment> \<open>Value must be a string\<close>
  | StringTooLong nat          \<comment> \<open>String exceeds maximum length of n characters\<close>
  | MaliciousContent           \<comment> \<open>String contains potentially malicious content\<close>
  | NotAnObject                \<comment> \<open>Value must be a valid object\<close>
  | DangerousKey string        \<comment> \<open>Dangerous key 'k' is not allowed\<close>
  | UrlNotAString              \<comment> \<open>URL must be a non-empty string\<close>
  | ProtocolNotAllowed string  \<comment> \<open>Protocol 'p' is not allowed\<close>
  | DangerousUrlPattern        \<comment> \<open>URL contains dangerous patterns\<close>
  | LocalAddress               \<comment> \<open>Local/private IP addresses are not allowed\<close>
  | InvalidUrlFormat           \<comment> \<open>Invalid URL format\<close>
  | ManifestNotAnObject        \<comment> \<open>Manifest must be a valid object\<close>
  | RequiredField string       \<comment> \<open>Required field 'f' is missing or invalid\<close>
  | ManifestKey "verr list"    \<comment> \<open>Manifest key validation failed: ...\<close>
  | ManifestDescription "verr list"  \<comment> \<open>Manifest description validation failed: ...\<close>
  | ImagesNotArray             \<comment> \<open>Images must be an array\<close>
  | TooManyImages              \<comment> \<open>Too many images in manifest (maximum 50 allowed)\<close>
  | ImageNotObject nat         \<comment> \<open>Image at index i must be an object\<close>
  | ImageKeyMissing nat        \<comment> \<open>Image at index i missing valid key\<close>
  | ImageTypeInvalid nat       \<comment> \<open>Image at index i must have type 'url' or 'local'\<close>
  | ImageUrlInvalid nat "verr list"  \<comment> \<open>Image at index i has invalid URL: ...\<close>
  | LocalImageName nat         \<comment> \<open>Local image at index i must have a valid name\<close>
  | SanitizationFailed exn     \<comment> \<open>Manifest sanitization failed: ...\<close>
  | FileTooLarge nat           \<comment> \<open>File size (n bytes) exceeds maximum allowed size (10485760 bytes)\<close>
  | ExtensionNotAllowed string \<comment> \<open>File extension 'e' is not allowed\<close>
  | DangerousFileName          \<comment> \<open>File name contains dangerous keywords\<close>
  | MimeMismatch               \<comment> \<open>File MIME type does not match extension\<close>
and exn =
    DepthExceeded              \<comment> \<open>Object depth exceeds maximum allowed depth of 10\<close>
  | ArrayTooLong               \<comment> \<open>Array length exceeds maximum allowed length of 1000\<close>
  | InvalidString "verr list"  \<comment> \<open>Invalid string: ...\<close>
  | InvalidObjectKeys "verr list"  \<comment> \<open>Invalid object keys: ...\<close>

record ValidationResult =
  isValid :: bool
  errors :: "verr list"
  sanitizedValue :: "jv option"

definition invalid :: "verr list \<Rightarrow> ValidationResult" where
  "invalid es = \<lparr>isValid = False, errors = es, sanitizedValue = None\<rparr>"

definition valid :: "jv option \<Rightarrow> ValidationResult" where
  "valid v = \<lparr>isValid = True, errors = [], sanitizedValue = v\<rparr>"

subsection \<open>sanitizeHtml, validateString, validateObjectKeys\<close>

definition sanitizeHtml :: "string \<Rightarrow> string" where
  "sanitizeHtml html =
     (if html = [] then []
      else
        let sanitized = fold rx_remove XSS_PATTERNS html;
            sanitized = rx_remove ATTRIBUTE_PATTERN sanitized;
            sanitized = replace_char CHR ''&'' ''&amp;'' sanitized;
            sanitized = replace_char CHR ''<'' ''&lt;'' sanitized;
            sanitized = replace_char CHR ''>'' ''&gt;'' sanitized;
            sanitized = replace_char CHR 0x22 ''&quot;'' sanitized;
            sanitized = replace_char CHR 0x27 ''&#x27;'' sanitized;
            sanitized = replace_char CHR ''/'' ''&#x2F;'' sanitized
        in sanitized)"

text \<open>
  \<open>validateString\<close> reads and updates the pattern objects, so it takes them and returns
  them with the result.
\<close>

fun validateString :: "patterns \<Rightarrow> jv \<Rightarrow> nat \<Rightarrow> ValidationResult \<times> patterns" where
  "validateString ps JNull maxLength = (invalid [NullOrUndefined], ps)"
| "validateString ps JUndefined maxLength = (invalid [NullOrUndefined], ps)"
| "validateString ps (JStr v) maxLength =
     (if length v > maxLength then (invalid [StringTooLong maxLength], ps)
      else (case some_test ps v of
              (True, ps') \<Rightarrow> (invalid [MaliciousContent], ps')
            | (False, ps') \<Rightarrow> (valid (Some (JStr (sanitizeHtml v))), ps')))"
| "validateString ps v maxLength = (invalid [NotAString], ps)"

definition is_dangerous :: "string \<Rightarrow> bool" where
  "is_dangerous key = (toLowerCase key \<in> set DANGEROUS_KEYS)"

text \<open>
  \<open>Object.keys\<close> of a plain object are its own keys; a binary object has none. The keys
  of an array are its indices, written in decimal, and no index is in \<open>DANGEROUS_KEYS\<close>.
\<close>

fun validateObjectKeys :: "jv \<Rightarrow> ValidationResult" where
  "validateObjectKeys (JObj es) =
     (let errors = map DangerousKey (filter is_dangerous (map fst es))
      in if length errors > 0 then invalid errors else valid None)"
| "validateObjectKeys (JArr xs) = valid None"
| "validateObjectKeys (JBlob n) = valid None"
| "validateObjectKeys v = invalid [NotAnObject]"

subsection \<open>sanitizeObject\<close>

text \<open>
  A thrown error is \<open>Inl\<close>. \<open>sanitizeItems\<close> is \<open>obj.map(item => sanitizeObject(item, depth + 1))\<close>,
  which an error of an item leaves at once. \<open>sanitizeEntries\<close> is the loop over
  \<open>Object.entries(obj)\<close> that fills the new object: it passes over a dangerous key, and the
  \<open>try\<close> around the recursive call catches the error of a value, so that the property is
  left out and the loop goes on. The keys of an object are distinct and the new object
  starts empty, so each assignment appends a property.
\<close>

fun sanitizeObject :: "patterns \<Rightarrow> jv \<Rightarrow> nat \<Rightarrow> (exn + jv) \<times> patterns"
  and sanitizeItems :: "patterns \<Rightarrow> jv list \<Rightarrow> nat \<Rightarrow> (exn + jv list) \<times> patterns"
  and sanitizeEntries :: "patterns \<Rightarrow> (string \<times> jv) list \<Rightarrow> nat \<Rightarrow> (string \<times> jv) list \<times> patterns"
where
  "sanitizeObject ps obj depth =
     (if depth > MAX_OBJECT_DEPTH then (Inl DepthExceeded, ps)
      else (case obj of
          JNull \<Rightarrow> (Inr obj, ps)
        | JUndefined \<Rightarrow> (Inr obj, ps)
        | JArr xs \<Rightarrow>
            (if length xs > MAX_ARRAY_LENGTH then (Inl ArrayTooLong, ps)
             else (case sanitizeItems ps xs (depth + 1) of
                     (Inl e, ps') \<Rightarrow> (Inl e, ps')
                   | (Inr ys, ps') \<Rightarrow> (Inr (JArr ys), ps')))
        | JStr s \<Rightarrow>
            (case validateString ps obj MAX_STRING_LENGTH of
               (result, ps') \<Rightarrow>
                 (if \<not> isValid result then (Inl (InvalidString (errors result)), ps')
                  else (case sanitizedValue result of
                          Some v \<Rightarrow> (Inr v, ps')
                        | None \<Rightarrow> (Inr JUndefined, ps'))))
        | JObj es \<Rightarrow>
            (let keyValidation = validateObjectKeys obj
             in if \<not> isValid keyValidation
                then (Inl (InvalidObjectKeys (errors keyValidation)), ps)
                else (case sanitizeEntries ps es (depth + 1) of
                        (es', ps') \<Rightarrow> (Inr (JObj es'), ps')))
        | JBlob n \<Rightarrow>
            (let keyValidation = validateObjectKeys obj
             in if \<not> isValid keyValidation
                then (Inl (InvalidObjectKeys (errors keyValidation)), ps)
                else (Inr (JObj []), ps))
        | JBool b \<Rightarrow> (Inr obj, ps)
        | JNum n \<Rightarrow> (Inr obj, ps)))"
| "sanitizeItems ps [] d = (Inr [], ps)"
| "sanitizeItems ps (x # xs) d =
     (case sanitizeObject ps x d of
        (Inl e, ps') \<Rightarrow> (Inl e, ps')
      | (Inr y, ps') \<Rightarrow>
          (case sanitizeItems ps' xs d of
             (Inl e, ps'') \<Rightarrow> (Inl e, ps'')
           | (Inr ys, ps'') \<Rightarrow> (Inr (y # ys), ps'')))"
| "sanitizeEntries ps [] d = ([], ps)"
| "sanitizeEntries ps ((key, v) # es) d =
     (if is_dangerous key then sanitizeEntries ps es d
      else (case sanitizeObject ps v d of
              (Inl e, ps') \<Rightarrow> sanitizeEntries ps' es d
            | (Inr v', ps') \<Rightarrow>
                (case sanitizeEntries ps' es d of
                   (es', ps'') \<Rightarrow> ((key, v') # es', ps''))))"

subsection \<open>validateUrl\<close>

text \<open>
  \<open>new URL(url)\<close> is the parser of the platform, which is not part of the repository: the
  validator takes it as the parameter \<open>parse\<close>, with \<open>None\<close> where the constructor throws.
  Of the parsed URL the validator reads \<open>protocol\<close> and \<open>hostname\<close>.
\<close>

record URL =
  protocol :: string
  hostname :: string

type_synonym url_parser = "string \<Rightarrow> URL option"

definition allowedProtocols :: "string list" where
  "allowedProtocols = [''http:'', ''https:'']"

text \<open>These five patterns have the flag \<open>i\<close> only and are created by each call.\<close>

definition dangerousPatterns :: "rx list" where
  "dangerousPatterns = [lit ''javascript:'', lit ''data:'', lit ''vbscript:'', lit ''file:'', lit ''ftp:'']"

definition is_local_host :: "string \<Rightarrow> bool" where
  "is_local_host h =
     (h = ''localhost'' \<or> h = ''127.0.0.1'' \<or> startsWith h ''192.168.'' \<or>
      startsWith h ''10.'' \<or> startsWith h ''172.'')"

fun validateUrl :: "url_parser \<Rightarrow> jv \<Rightarrow> ValidationResult" where
  "validateUrl parse (JStr url) =
     (if url = [] then invalid [UrlNotAString]
      else (case parse url of
              None \<Rightarrow> invalid [InvalidUrlFormat]
            | Some urlObj \<Rightarrow>
                (let errors =
                       (if protocol urlObj \<notin> set allowedProtocols
                        then [ProtocolNotAllowed (protocol urlObj)] else [])
                     @ (if list_ex (\<lambda>pattern. rx_test pattern url) dangerousPatterns
                        then [DangerousUrlPattern] else [])
                     @ (if is_local_host (hostname urlObj) then [LocalAddress] else [])
                 in if length errors > 0 then invalid errors else valid None)))"
| "validateUrl parse v = invalid [UrlNotAString]"

subsection \<open>checkRateLimit\<close>

text \<open>
  \<open>rateLimitMap\<close> is a field of the service and \<open>Date.now()\<close> is read at each call: the
  model takes the map and the time and returns the answer with the new map. The default
  arguments are \<open>maxRequests = 100\<close> and \<open>windowMs = 60000\<close>.
\<close>

record RateLimitEntry =
  count :: int
  resetTime :: int

type_synonym rateLimitMap = "string \<rightharpoonup> RateLimitEntry"

definition checkRateLimit ::
    "rateLimitMap \<Rightarrow> int \<Rightarrow> string \<Rightarrow> int \<Rightarrow> int \<Rightarrow> bool \<times> rateLimitMap" where
  "checkRateLimit m now key maxRequests windowMs =
     (case m key of
        None \<Rightarrow> (True, m(key \<mapsto> \<lparr>count = 1, resetTime = now + windowMs\<rparr>))
      | Some entry \<Rightarrow>
          (if now > resetTime entry
           then (True, m(key \<mapsto> \<lparr>count = 1, resetTime = now + windowMs\<rparr>))
           else if count entry \<ge> maxRequests then (False, m)
           else (True, m(key \<mapsto> entry\<lparr>count := count entry + 1\<rparr>))))"

text \<open>
  Successive calls for one key with the same limit and window, at the given times: the
  answers and the map after the last call.
\<close>

fun checkRateLimits ::
    "rateLimitMap \<Rightarrow> int list \<Rightarrow> string \<Rightarrow> int \<Rightarrow> int \<Rightarrow> bool list \<times> rateLimitMap" where
  "checkRateLimits m [] key maxRequests windowMs = ([], m)"
| "checkRateLimits m (now # nows) key maxRequests windowMs =
     (case checkRateLimit m now key maxRequests windowMs of
        (b, m') \<Rightarrow>
          (case checkRateLimits m' nows key maxRequests windowMs of
             (bs, m'') \<Rightarrow> (b # bs, m'')))"

subsection \<open>Inputs of the unit tests\<close>

text \<open>
  The test "should reject objects that are too deep" nests fifteen objects under the key
  \<open>nested\<close> in an empty object; \<open>deepObj 15\<close> is that value.
\<close>

definition deepObj :: "nat \<Rightarrow> jv" where
  "deepObj n = ((\<lambda>v. JObj [(''nested'', v)]) ^^ n) (JObj [])"

text \<open>The object of the test "should remove dangerous keys", with its own key \<open>constructor\<close>.\<close>

definition dangerousObj :: jv where
  "dangerousObj = JObj [(''name'', JStr ''John''), (''constructor'', JStr ''bad''), (''age'', JNum 30)]"

text \<open>
  What \<open>new URL\<close> gives on the addresses that the examples below use (the address and the
  \<open>protocol\<close> and \<open>hostname\<close> of the parsed URL); the constructor throws on \<open>not-a-url\<close>,
  which has no entry.
\<close>

definition sample_urls :: "(string \<times> URL) list" where
  "sample_urls =
    [(''https://example.com'', \<lparr>protocol = ''https:'', hostname = ''example.com''\<rparr>),
     (''http://172.16.0.1'', \<lparr>protocol = ''http:'', hostname = ''172.16.0.1''\<rparr>),
     (''http://172.217.0.0'', \<lparr>protocol = ''http:'', hostname = ''172.217.0.0''\<rparr>),
     (''ftp://example.com/file.txt'', \<lparr>protocol = ''ftp:'', hostname = ''example.com''\<rparr>)]"

definition sample_parse :: url_parser where
  "sample_parse = map_of sample_urls"


subsection \<open>validateFile\<close>

text \<open>
  A \<open>File\<close>: its \<open>name\<close>, its \<open>size\<close> in bytes, its MIME \<open>type\<close> and its content read as
  text.
  Inside a record a file is the binary object \<open>JBlob (file_size file)\<close>.
\<close>

record File =
  file_name :: string
  file_size :: nat
  file_type :: string
  file_text :: string

definition ALLOWED_FILE_EXTENSIONS :: "string list" where
  "ALLOWED_FILE_EXTENSIONS =
    [''.json'', ''.png'', ''.jpg'', ''.jpeg'', ''.gif'', ''.webp'', ''.svg'',
     ''.mp3'', ''.wav'', ''.ogg'', ''.txt'', ''.md'']"

definition mimeExtensionMap :: "(string \<times> string list) list" where
  "mimeExtensionMap =
    [(''.json'', [''application/json'', ''text/json'']),
     (''.png'', [''image/png'']),
     (''.jpg'', [''image/jpeg'']),
     (''.jpeg'', [''image/jpeg'']),
     (''.gif'', [''image/gif'']),
     (''.webp'', [''image/webp'']),
     (''.svg'', [''image/svg+xml'']),
     (''.mp3'', [''audio/mpeg'']),
     (''.wav'', [''audio/wav'']),
     (''.ogg'', [''audio/ogg'']),
     (''.txt'', [''text/plain'']),
     (''.md'', [''text/markdown'', ''text/plain''])]"

definition validateMimeType :: "string \<Rightarrow> string \<Rightarrow> bool" where
  "validateMimeType mimeType extension =
     (case map_of mimeExtensionMap extension of
        None \<Rightarrow> False
      | Some allowedMimeTypes \<Rightarrow> mimeType \<in> set allowedMimeTypes)"

text \<open>\<open>s.includes(p)\<close>\<close>

fun str_includes :: "string \<Rightarrow> string \<Rightarrow> bool" where
  "str_includes [] p = (p = [])"
| "str_includes (c # cs) p = (startsWith (c # cs) p \<or> str_includes cs p)"

text \<open>\<open>s.split('.').pop()\<close>: what follows the last dot, or all of \<open>s\<close> without a dot.\<close>

definition last_segment :: "string \<Rightarrow> string" where
  "last_segment s = rev (takeWhile (\<lambda>c. c \<noteq> CHR ''.'') (rev s))"

definition validateFile :: "File \<Rightarrow> ValidationResult" where
  "validateFile file =
     (let extension = ''.'' @ toLowerCase (last_segment (file_name file));
          errors =
            (if file_size file > MAX_FILE_SIZE then [FileTooLarge (file_size file)] else [])
            @ (if extension \<notin> set ALLOWED_FILE_EXTENSIONS then [ExtensionNotAllowed extension] else [])
            @ (if list_ex (\<lambda>key. str_includes (toLowerCase (file_name file)) key) DANGEROUS_KEYS
               then [DangerousFileName] else [])
            @ (if \<not> validateMimeType (file_type file) extension then [MimeMismatch] else [])
      in if length errors > 0 then invalid errors else valid None)"

subsection \<open>validateAvatarManifest\<close>

definition is_string :: "jv \<Rightarrow> bool" where
  "is_string v = (case v of JStr s \<Rightarrow> True | _ \<Rightarrow> False)"

text \<open>The body of \<open>manifest.images.forEach((image, index) => ...)\<close> for one image.\<close>

definition validateImage :: "url_parser \<Rightarrow> jv \<Rightarrow> nat \<Rightarrow> verr list" where
  "validateImage parse img index =
     (if \<not> truthy img \<or> \<not> is_object img then [ImageNotObject index]
      else
        (if \<not> truthy (getProp img ''key'') \<or> \<not> is_string (getProp img ''key'')
         then [ImageKeyMissing index] else [])
        @ (if \<not> truthy (getProp img ''type'')
              \<or> getProp img ''type'' \<notin> set [JStr ''url'', JStr ''local'']
           then [ImageTypeInvalid index] else [])
        @ (if getProp img ''type'' = JStr ''url'' \<and> truthy (getProp img ''source'')
           then (let urlValidation = validateUrl parse (getProp img ''source'')
                 in if \<not> isValid urlValidation
                    then [ImageUrlInvalid index (errors urlValidation)] else [])
           else [])
        @ (if getProp img ''type'' = JStr ''local''
              \<and> (\<not> truthy (getProp img ''name'') \<or> \<not> is_string (getProp img ''name''))
           then [LocalImageName index] else []))"

definition validateImages :: "url_parser \<Rightarrow> jv \<Rightarrow> verr list" where
  "validateImages parse images =
     (if truthy images
      then (case images of
              JArr xs \<Rightarrow>
                (if length xs > 50 then [TooManyImages]
                 else concat (map (\<lambda>(img, index). validateImage parse img index)
                                  (zip xs [0..<length xs])))
            | v \<Rightarrow> [ImagesNotArray])
      else [])"

definition requiredFields :: "string list" where
  "requiredFields = [''key'', ''description'']"

definition validateAvatarManifest ::
    "patterns \<Rightarrow> url_parser \<Rightarrow> jv \<Rightarrow> ValidationResult \<times> patterns" where
  "validateAvatarManifest ps parse manifest =
     (if \<not> truthy manifest \<or> \<not> is_object manifest then (invalid [ManifestNotAnObject], ps)
      else
        let errors1 = concat (map (\<lambda>field.
                          if \<not> truthy (getProp manifest field) \<or> \<not> is_string (getProp manifest field)
                          then [RequiredField field] else []) requiredFields);
            (errors2, ps1) =
               (if truthy (getProp manifest ''key'')
                then (case validateString ps (getProp manifest ''key'') 64 of
                        (keyValidation, ps') \<Rightarrow>
                          (if \<not> isValid keyValidation then [ManifestKey (errors keyValidation)] else [],
                           ps'))
                else ([], ps));
            (errors3, ps2) =
               (if truthy (getProp manifest ''description'')
                then (case validateString ps1 (getProp manifest ''description'') 500 of
                        (descValidation, ps') \<Rightarrow>
                          (if \<not> isValid descValidation
                           then [ManifestDescription (errors descValidation)] else [],
                           ps'))
                else ([], ps1));
            errors4 = validateImages parse (getProp manifest ''images'');
            errors = errors1 @ errors2 @ errors3 @ errors4
        in if length errors > 0 then (invalid errors, ps2)
           else (case sanitizeObject ps2 manifest 0 of
                   (Inr sanitizedManifest, ps3) \<Rightarrow> (valid (Some sanitizedManifest), ps3)
                 | (Inl error, ps3) \<Rightarrow> (invalid [SanitizationFailed error], ps3)))"


section \<open>DatabaseService\<close>

subsection \<open>Errors of the services\<close>

text \<open>
  The errors that DatabaseService and AvatarsService throw or reject with; a rejected
  promise and a thrown error are both \<open>Inl\<close>. The comments give the message of the source.
\<close>

datatype error =
    StoreNameEmpty      \<comment> \<open>Store name must be a non-empty string\<close>
  | StoreNameTooLong    \<comment> \<open>Store name exceeds maximum length of 64 characters\<close>
  | StoreNameChars      \<comment> \<open>Store name contains invalid characters. ...\<close>
  | StoreNameReserved   \<comment> \<open>Store name is reserved and cannot be used\<close>
  | KeyNull             \<comment> \<open>Key cannot be null or undefined\<close>
  | KeyReserved         \<comment> \<open>Key name is reserved and cannot be used\<close>
  | ArrayKeyReserved nat  \<comment> \<open>Array key at index i is reserved and cannot be used\<close>
  | IndexNameEmpty      \<comment> \<open>Index name must be a non-empty string\<close>
  | IndexNameReserved   \<comment> \<open>Index name is reserved and cannot be used\<close>
  | IndexQueryEmpty     \<comment> \<open>Index query must be a non-empty string\<close>
  | FailedGet           \<comment> \<open>Failed to retrieve data from database\<close>
  | FailedGetAll        \<comment> \<open>Failed to retrieve all data from database\<close>
  | FailedPut           \<comment> \<open>Failed to store data in database\<close>
  | FailedDelete        \<comment> \<open>Failed to delete data from database\<close>
  | FailedClearIndex    \<comment> \<open>Failed to clear index from database\<close>
  | InvalidUrl "verr list"       \<comment> \<open>Invalid URL: ...\<close>
  | RateLimitExceeded            \<comment> \<open>Rate limit exceeded for download requests\<close>
  | InvalidManifest "verr list"  \<comment> \<open>Invalid manifest: ...\<close>
  | HttpError nat                \<comment> \<open>the HttpErrorResponse of a request, with its status\<close>
  | ExtensionLoadingFailed error \<comment> \<open>Extension loading failed: ...\<close>
  | AvatarFailed string          \<comment> \<open>Avatar op failed. Please try again.\<close>
  | AvatarNotFound               \<comment> \<open>Avatar resource not found.\<close>
  | ServerError                  \<comment> \<open>Server error occurred. Please try again later.\<close>
  | NetworkError                 \<comment> \<open>Network error. Please check your connection.\<close>
  | InvalidKey "verr list"       \<comment> \<open>Invalid key: ...\<close>
  | FailedDeleteAvatar           \<comment> \<open>Failed to delete avatar\<close>
  | NoFiles                      \<comment> \<open>No files provided for import\<close>
  | InvalidFile string "verr list"  \<comment> \<open>Invalid file 'name': ...\<close>
  | EmptyFile                    \<comment> \<open>File is empty or contains no readable content\<close>
  | InvalidJson                  \<comment> \<open>Invalid JSON format: ...\<close>
  | SanitizeError exn            \<comment> \<open>an error that sanitizeObject throws\<close>
  | TypeError                    \<comment> \<open>the TypeError of a call on a value that has no such method\<close>

subsection \<open>Validation of names and keys\<close>

definition MAX_STORE_NAME_LENGTH :: nat where
  "MAX_STORE_NAME_LENGTH = 64"

text \<open>\<open>ALLOWED_STORE_NAME_PATTERN\<close> is \<^verbatim>\<open>/^[a-zA-Z0-9_-]+$/\<close>, tested on a non-empty name.\<close>

definition ALLOWED_STORE_NAME_PATTERN :: "string \<Rightarrow> bool" where
  "ALLOWED_STORE_NAME_PATTERN name =
     (name \<noteq> [] \<and> (\<forall>c\<in>set name. c \<in> set (lower_chars @ upper_chars @ digit_chars @ ''_-'')))"

definition RESERVED_NAMES :: "string list" where
  "RESERVED_NAMES = [''__proto__'', ''constructor'', ''prototype'', ''toString'', ''valueOf'']"

definition validateStoreName :: "string \<Rightarrow> error + unit" where
  "validateStoreName name =
     (if name = [] then Inl StoreNameEmpty
      else if length name > MAX_STORE_NAME_LENGTH then Inl StoreNameTooLong
      else if \<not> ALLOWED_STORE_NAME_PATTERN name then Inl StoreNameChars
      else if toLowerCase name \<in> set RESERVED_NAMES then Inl StoreNameReserved
      else Inr ())"

text \<open>
  A key is a value: a string, a number or an array of keys where it is valid, and
  \<open>JUndefined\<close> where the caller gives none. \<open>validateSubKeys\<close> is the \<open>forEach\<close> over an
  array key, from the index \<open>i\<close> on.
\<close>

fun validateSubKeys :: "jv list \<Rightarrow> nat \<Rightarrow> error + unit" where
  "validateSubKeys [] i = Inr ()"
| "validateSubKeys (JStr subKey # ks) i =
     (if toLowerCase subKey \<in> set RESERVED_NAMES then Inl (ArrayKeyReserved i)
      else validateSubKeys ks (i + 1))"
| "validateSubKeys (k # ks) i = validateSubKeys ks (i + 1)"

fun validateKey :: "jv \<Rightarrow> error + unit" where
  "validateKey JNull = Inl KeyNull"
| "validateKey JUndefined = Inl KeyNull"
| "validateKey (JStr key) = (if toLowerCase key \<in> set RESERVED_NAMES then Inl KeyReserved else Inr ())"
| "validateKey (JArr ks) = validateSubKeys ks 0"
| "validateKey key = Inr ()"

subsection \<open>sanitizeData\<close>

text \<open>
  \<open>JSON.parse(JSON.stringify(data))\<close> on a value that is not \<open>undefined\<close>: a property
  whose value is \<open>undefined\<close> is left out, an \<open>undefined\<close> item of an array becomes
  \<open>null\<close>, and a binary object becomes an empty object.
\<close>

fun json_clone :: "jv \<Rightarrow> jv" where
  "json_clone (JArr xs) = JArr (map (\<lambda>x. if x = JUndefined then JNull else json_clone x) xs)"
| "json_clone (JObj es) =
     JObj (map (\<lambda>(k, v). (k, json_clone v)) (filter (\<lambda>(k, v). v \<noteq> JUndefined) es))"
| "json_clone (JBlob n) = JObj []"
| "json_clone v = v"

text \<open>
  \<open>delete obj[name]\<close>. The test \<open>name in obj\<close> before it is also true for an inherited
  property, but \<open>delete\<close> removes an own property only.
\<close>

fun delete_prop :: "string \<Rightarrow> jv \<Rightarrow> jv" where
  "delete_prop name (JObj es) = JObj (filter (\<lambda>(k, v). k \<noteq> name) es)"
| "delete_prop name v = v"

definition sanitizeData :: "jv \<Rightarrow> jv" where
  "sanitizeData data =
     (if data = JNull \<or> data = JUndefined then data
      else
        let clonedData = json_clone data
        in if is_object clonedData then fold delete_prop RESERVED_NAMES clonedData
           else clonedData)"


subsection \<open>The storage engine\<close>

text \<open>
  IndexedDB is the engine of the platform, not part of the repository. The model keeps
  what the services rely on. A database has named object stores; a store has a key path
  (none, one property name, or several for a composite key) and named indexes with a key
  path each, and holds its records by primary key. The engine answers a request with a
  result or with an error; \<open>failing\<close> tells which requests it answers with an error, and
  \<open>issued\<close> records every request that reaches it, the latest first. A request for a
  store or an index that the database does not have, and a put without a usable key, is an
  error as well. Key generators are not modelled. The rollback of the transaction of a
  failing request is not modelled; no theorem below depends on what a store holds after a
  failed request.
\<close>

datatype keyPath = NoKeyPath | KeyPath string | KeyPaths "string list"

record storeDef =
  keyPath :: keyPath
  indexes :: "(string \<times> keyPath) list"

datatype request =
    ReqGet string jv
  | ReqGetAll string
  | ReqPut string jv jv
  | ReqDelete string jv
  | ReqIndexKeys string string jv

record IDBDatabase =
  stores :: "(string \<times> storeDef) list"
  rows :: "string \<Rightarrow> (jv \<times> jv) list"
  failing :: "request \<Rightarrow> bool"
  issued :: "request list"

fun valid_key :: "jv \<Rightarrow> bool" where
  "valid_key (JStr s) = True"
| "valid_key (JNum n) = True"
| "valid_key (JArr ks) = (\<forall>k\<in>set ks. valid_key k)"
| "valid_key v = False"

text \<open>The key that a key path takes out of a value, where it is a valid key.\<close>

fun extract_key :: "keyPath \<Rightarrow> jv \<Rightarrow> jv option" where
  "extract_key NoKeyPath v = None"
| "extract_key (KeyPath p) v = (if valid_key (getProp v p) then Some (getProp v p) else None)"
| "extract_key (KeyPaths ps) v =
     (if \<forall>p\<in>set ps. valid_key (getProp v p) then Some (JArr (map (getProp v) ps)) else None)"

text \<open>
  The primary key of \<open>store.put(value, key)\<close>: the key argument in a store without a key
  path, the key taken out of the value in a store with one (which accepts no key argument).
\<close>

fun primary_key :: "keyPath \<Rightarrow> jv \<Rightarrow> jv \<Rightarrow> jv option" where
  "primary_key NoKeyPath v key = (if valid_key key then Some key else None)"
| "primary_key kp v key = (if key = JUndefined then extract_key kp v else None)"

text \<open>
  The order of the keys: a number is before a string and a string before an array; numbers
  are in the order of their values, strings in the order of their code units and arrays
  item by item, a proper prefix first. The engine answers with records and keys in this
  order of the primary keys, whatever the order in which they were written.
\<close>

fun str_less :: "string \<Rightarrow> string \<Rightarrow> bool" where
  "str_less a [] = False"
| "str_less [] (y # ys) = True"
| "str_less (x # xs) (y # ys) = ((of_char x :: nat) < of_char y \<or> (x = y \<and> str_less xs ys))"

fun key_less :: "jv \<Rightarrow> jv \<Rightarrow> bool" and keys_less :: "jv list \<Rightarrow> jv list \<Rightarrow> bool" where
  "key_less (JNum a) (JNum b) = (a < b)"
| "key_less (JNum a) (JStr b) = True"
| "key_less (JNum a) (JArr bs) = True"
| "key_less (JStr a) (JStr b) = str_less a b"
| "key_less (JStr a) (JArr bs) = True"
| "key_less (JArr as) (JArr bs) = keys_less as bs"
| "key_less a b = False"
| "keys_less as [] = False"
| "keys_less [] (b # bs) = True"
| "keys_less (a # as) (b # bs) = (key_less a b \<or> (a = b \<and> keys_less as bs))"

fun insert_row :: "jv \<times> jv \<Rightarrow> (jv \<times> jv) list \<Rightarrow> (jv \<times> jv) list" where
  "insert_row r [] = [r]"
| "insert_row r (x # xs) =
     (if key_less (fst r) (fst x) then r # x # xs else x # insert_row r xs)"

definition in_key_order :: "(jv \<times> jv) list \<Rightarrow> (jv \<times> jv) list" where
  "in_key_order t = fold insert_row t []"

definition upsert :: "jv \<Rightarrow> jv \<Rightarrow> (jv \<times> jv) list \<Rightarrow> (jv \<times> jv) list" where
  "upsert k v t = (if k \<in> fst ` set t then map (\<lambda>(k', v'). if k' = k then (k, v) else (k', v')) t
                   else t @ [(k, v)])"

text \<open>
  What a request does when the engine serves it: the result and the new records. The
  operations make a request to read or delete only with a valid key or with a key that
  they have read from the store.
\<close>

fun serve :: "IDBDatabase \<Rightarrow> request \<Rightarrow> (jv \<times> IDBDatabase) option" where
  "serve db (ReqGet s key) =
     (case map_of (stores db) s of
        None \<Rightarrow> None
      | Some def \<Rightarrow>
          Some (case map_of (rows db s) key of None \<Rightarrow> JUndefined | Some v \<Rightarrow> v, db))"
| "serve db (ReqGetAll s) =
     (case map_of (stores db) s of
        None \<Rightarrow> None
      | Some def \<Rightarrow> Some (JArr (map snd (in_key_order (rows db s))), db))"
| "serve db (ReqPut s v key) =
     (case map_of (stores db) s of
        None \<Rightarrow> None
      | Some def \<Rightarrow>
          (case primary_key (keyPath def) v key of
             None \<Rightarrow> None
           | Some k \<Rightarrow> Some (k, db\<lparr>rows := (rows db)(s := upsert k v (rows db s))\<rparr>)))"
| "serve db (ReqDelete s key) =
     (case map_of (stores db) s of
        None \<Rightarrow> None
      | Some def \<Rightarrow>
          Some (JUndefined, db\<lparr>rows := (rows db)(s := filter (\<lambda>(k, v). k \<noteq> key) (rows db s))\<rparr>))"
| "serve db (ReqIndexKeys s i query) =
     (case map_of (stores db) s of
        None \<Rightarrow> None
      | Some def \<Rightarrow>
          (case map_of (indexes def) i of
             None \<Rightarrow> None
           | Some kp \<Rightarrow>
               Some (JArr (map fst (in_key_order
                       (filter (\<lambda>(k, v). extract_key kp v = Some query) (rows db s)))), db)))"

definition engine :: "IDBDatabase \<Rightarrow> request \<Rightarrow> jv option \<times> IDBDatabase" where
  "engine db req =
     (let db' = db\<lparr>issued := req # issued db\<rparr>
      in if failing db req then (None, db')
         else (case serve db' req of None \<Rightarrow> (None, db') | Some (v, db'') \<Rightarrow> (Some v, db'')))"

subsection \<open>The operations\<close>

text \<open>
  Each operation validates its arguments, which throws before any request, and turns an
  error of the engine into its own message. The database promise is taken as resolved.
  \<open>store.get\<close>, \<open>store.delete\<close> and \<open>index.getAllKeys\<close> throw on a value that is no valid
  key, and make no request; the operations call them inside the promise chain, so the
  operation fails with its own message.
\<close>

definition get :: "IDBDatabase \<Rightarrow> string \<Rightarrow> jv \<Rightarrow> (error + jv) \<times> IDBDatabase" where
  "get db storeName key =
     (case validateStoreName storeName of
        Inl e \<Rightarrow> (Inl e, db)
      | Inr u \<Rightarrow>
          (case validateKey key of
             Inl e \<Rightarrow> (Inl e, db)
           | Inr u \<Rightarrow>
               if \<not> valid_key key then (Inl FailedGet, db)
               else
                 (case engine db (ReqGet storeName key) of
                    (None, db') \<Rightarrow> (Inl FailedGet, db')
                  | (Some v, db') \<Rightarrow> (Inr v, db'))))"

definition getAll :: "IDBDatabase \<Rightarrow> string \<Rightarrow> (error + jv) \<times> IDBDatabase" where
  "getAll db storeName =
     (case validateStoreName storeName of
        Inl e \<Rightarrow> (Inl e, db)
      | Inr u \<Rightarrow>
          (case engine db (ReqGetAll storeName) of
             (None, db') \<Rightarrow> (Inl FailedGetAll, db')
           | (Some v, db') \<Rightarrow> (Inr v, db')))"

definition put :: "IDBDatabase \<Rightarrow> string \<Rightarrow> jv \<Rightarrow> jv \<Rightarrow> (error + unit) \<times> IDBDatabase" where
  "put db storeName blob key =
     (case validateStoreName storeName of
        Inl e \<Rightarrow> (Inl e, db)
      | Inr u \<Rightarrow>
          (case (if key \<noteq> JUndefined then validateKey key else Inr ()) of
             Inl e \<Rightarrow> (Inl e, db)
           | Inr u \<Rightarrow>
               (let sanitizedBlob = sanitizeData blob
                in case engine db (ReqPut storeName sanitizedBlob key) of
                     (None, db') \<Rightarrow> (Inl FailedPut, db')
                   | (Some v, db') \<Rightarrow> (Inr (), db'))))"

definition delete :: "IDBDatabase \<Rightarrow> string \<Rightarrow> jv \<Rightarrow> (error + unit) \<times> IDBDatabase" where
  "delete db storeName key =
     (case validateStoreName storeName of
        Inl e \<Rightarrow> (Inl e, db)
      | Inr u \<Rightarrow>
          (case validateKey key of
             Inl e \<Rightarrow> (Inl e, db)
           | Inr u \<Rightarrow>
               if \<not> valid_key key then (Inl FailedDelete, db)
               else
                 (case engine db (ReqDelete storeName key) of
                    (None, db') \<Rightarrow> (Inl FailedDelete, db')
                  | (Some v, db') \<Rightarrow> (Inr (), db'))))"

text \<open>
  \<open>Promise.all(validKeys.map((key) => this.toResult(store.delete(key))))\<close>: every delete
  request is issued, and the promise is fulfilled when none of them fails. The keys are
  those that the engine has answered with, the keys of records of the store.
\<close>

fun deleteKeys :: "IDBDatabase \<Rightarrow> string \<Rightarrow> jv list \<Rightarrow> bool \<times> IDBDatabase" where
  "deleteKeys db storeName [] = (True, db)"
| "deleteKeys db storeName (key # keys) =
     (case engine db (ReqDelete storeName key) of
        (r, db') \<Rightarrow>
          (case deleteKeys db' storeName keys of
             (ok, db'') \<Rightarrow> (r \<noteq> None \<and> ok, db'')))"

text \<open>
  \<open>clearIndex\<close> in two parts: the checks of the arguments, which throw before the promise
  exists, and the promise, which reads the keys of the index and deletes the valid ones.
  The index query is declared a string; the check \<open>!indexQuery || typeof indexQuery !== 'string'\<close>
  is there for the values that arrive at run time.
\<close>

definition clearIndexCheck :: "string \<Rightarrow> string \<Rightarrow> jv \<Rightarrow> error + unit" where
  "clearIndexCheck storeName indexName indexQuery =
     (case validateStoreName storeName of
        Inl e \<Rightarrow> Inl e
      | Inr u \<Rightarrow>
          if indexName = [] then Inl IndexNameEmpty
          else if toLowerCase indexName \<in> set RESERVED_NAMES then Inl IndexNameReserved
          else (case indexQuery of
                  JStr q \<Rightarrow> if q = [] then Inl IndexQueryEmpty else Inr ()
                | v \<Rightarrow> Inl IndexQueryEmpty))"

definition clearIndexRun ::
    "IDBDatabase \<Rightarrow> string \<Rightarrow> string \<Rightarrow> jv \<Rightarrow> (error + unit) \<times> IDBDatabase" where
  "clearIndexRun db storeName indexName indexQuery =
     (if \<not> valid_key indexQuery then (Inl FailedClearIndex, db)
      else
        (case engine db (ReqIndexKeys storeName indexName indexQuery) of
           (Some (JArr keys), db') \<Rightarrow>
             (let validKeys = filter (\<lambda>key. validateKey key = Inr ()) keys
              in case deleteKeys db' storeName validKeys of
                   (True, db'') \<Rightarrow> (Inr (), db'')
                 | (False, db'') \<Rightarrow> (Inl FailedClearIndex, db''))
         | (r, db') \<Rightarrow> (Inl FailedClearIndex, db')))"

definition clearIndex ::
    "IDBDatabase \<Rightarrow> string \<Rightarrow> string \<Rightarrow> jv \<Rightarrow> (error + unit) \<times> IDBDatabase" where
  "clearIndex db storeName indexName indexQuery =
     (case clearIndexCheck storeName indexName indexQuery of
        Inl e \<Rightarrow> (Inl e, db)
      | Inr u \<Rightarrow> clearIndexRun db storeName indexName indexQuery)"


subsection \<open>Example databases and records\<close>

text \<open>A database with one store that has no key path, so that \<open>put\<close> takes the key as argument.\<close>

definition notes_db :: IDBDatabase where
  "notes_db =
     \<lparr>stores = [(''notes'', \<lparr>keyPath = NoKeyPath, indexes = []\<rparr>)],
      rows = (\<lambda>s. []), failing = (\<lambda>r. False), issued = []\<rparr>"

definition html_note :: jv where
  "html_note = JObj [(''title'', JStr ''a<b'')]"



text \<open>
  The database of the AvatarsService with the avatar \<open>hero\<close> and two images of it, the
  image \<open>standard\<close> written before the image \<open>profile\<close>.
\<close>

definition hero_rows :: "string \<Rightarrow> (jv \<times> jv) list" where
  "hero_rows =
     (\<lambda>s. [])
       (''abstracts'' := [(JStr ''hero'', JObj [(''key'', JStr ''hero''), (''description'', JStr ''A hero'')])],
        ''images'' :=
          [(JArr [JStr ''standard'', JStr ''hero''],
            JObj [(''key'', JStr ''standard''), (''avatarKey'', JStr ''hero''), (''blob'', JObj [])]),
           (JArr [JStr ''profile'', JStr ''hero''],
            JObj [(''key'', JStr ''profile''), (''avatarKey'', JStr ''hero''), (''blob'', JObj [])])])"

section \<open>AvatarsService\<close>

definition ABSTRACTS_STORE :: string where
  "ABSTRACTS_STORE = ''abstracts''"

definition IMAGES_STORE :: string where
  "IMAGES_STORE = ''images''"

text \<open>The stores that the service declares for the database \<open>avatars\<close>.\<close>

definition avatar_stores :: "(string \<times> storeDef) list" where
  "avatar_stores =
    [(''abstracts'', \<lparr>keyPath = KeyPath ''key'', indexes = []\<rparr>),
     (''images'', \<lparr>keyPath = KeyPaths [''key'', ''avatarKey''],
                   indexes = [(''avatarKey'', KeyPath ''avatarKey''),
                              (''type'', KeyPaths [''avatarKey'', ''type''])]\<rparr>)]"

text \<open>
  What the service reads from outside: the URL parser, the clock (one operation reads one
  time), \<open>HttpClient.get\<close> for a JSON body and for a blob (the size of the blob), with the
  error of a failed request, and \<open>JSON.parse\<close> (\<open>None\<close> where it throws). The state is the
  pattern objects and the rate limit map of the SecurityService and the database.
\<close>

record env =
  urlParser :: url_parser
  clock :: int
  httpJson :: "string \<Rightarrow> error + jv"
  httpBlob :: "string \<Rightarrow> error + nat"
  jsonParse :: "string \<Rightarrow> jv option"

record service =
  injectionPatterns :: patterns
  rateLimits :: rateLimitMap
  database :: IDBDatabase

definition handleError :: "string \<Rightarrow> error \<Rightarrow> error" where
  "handleError operation e =
     (case e of
        HttpError status \<Rightarrow>
          (if status = 404 then AvatarNotFound
           else if status \<ge> 500 then ServerError
           else if status = 0 then NetworkError
           else AvatarFailed operation)
      | _ \<Rightarrow> AvatarFailed operation)"

text \<open>
  The requests of one ingestion run concurrently and their completions are merged in no
  fixed order. The model serves them one after the other, in the order in which the source
  names them: the old images are cleared, the abstract is written, then the images with a
  URL and then the local images are handled in the order of the manifest.

  One image with a URL: every failure leaves the image out and the ingestion goes on.
\<close>

definition urlImagePut :: "env \<Rightarrow> jv \<Rightarrow> jv \<Rightarrow> service \<Rightarrow> service" where
  "urlImagePut e defKey img s =
     (let imageKey = getProp img ''key'';
          urlValidation = validateUrl (urlParser e) (getProp img ''source'')
      in if \<not> isValid urlValidation then s
         else (case getProp img ''source'' of
                 JStr imageSource \<Rightarrow>
                   (case checkRateLimit (rateLimits s) (clock e) (''image:'' @ imageSource) 50 60000 of
                      (False, m) \<Rightarrow> s\<lparr>rateLimits := m\<rparr>
                    | (True, m) \<Rightarrow>
                        (case httpBlob e imageSource of
                           Inl err \<Rightarrow> s\<lparr>rateLimits := m\<rparr>
                         | Inr blobSize \<Rightarrow>
                             (if blobSize > 10 * 1024 * 1024 then s\<lparr>rateLimits := m\<rparr>
                              else (case sanitizeObject (injectionPatterns s)
                                           (JObj [(''key'', imageKey), (''avatarKey'', defKey),
                                                  (''source'', JStr imageSource),
                                                  (''blob'', JBlob blobSize)]) 0 of
                                      (Inl err, ps) \<Rightarrow> s\<lparr>rateLimits := m, injectionPatterns := ps\<rparr>
                                    | (Inr sanitizedImageData, ps) \<Rightarrow>
                                        (case put (database s) IMAGES_STORE sanitizedImageData JUndefined of
                                           (r, db) \<Rightarrow>
                                             s\<lparr>rateLimits := m, injectionPatterns := ps,
                                               database := db\<rparr>)))))
               | v \<Rightarrow> s))"

text \<open>
  One local image: a missing or invalid file and a failed put leave the image out; an
  error of sanitizeObject is not caught here.
\<close>

definition localImagePut :: "File list \<Rightarrow> jv \<Rightarrow> jv \<Rightarrow> service \<Rightarrow> (error + unit) \<times> service" where
  "localImagePut imageFiles defKey img s =
     (let imageKey = getProp img ''key''
      in case find (\<lambda>file. JStr (file_name file) = getProp img ''name'') imageFiles of
           None \<Rightarrow> (Inr (), s)
         | Some imageFile \<Rightarrow>
             (if \<not> isValid (validateFile imageFile) then (Inr (), s)
              else (case sanitizeObject (injectionPatterns s)
                           (JObj [(''key'', imageKey), (''avatarKey'', defKey),
                                  (''source'', JNull), (''blob'', JBlob (file_size imageFile))]) 0 of
                      (Inl err, ps) \<Rightarrow> (Inl (SanitizeError err), s\<lparr>injectionPatterns := ps\<rparr>)
                    | (Inr sanitizedImageData, ps) \<Rightarrow>
                        (case put (database s) IMAGES_STORE sanitizedImageData JUndefined of
                           (r, db) \<Rightarrow> (Inr (), s\<lparr>injectionPatterns := ps, database := db\<rparr>)))))"

fun localImagePuts :: "File list \<Rightarrow> jv \<Rightarrow> jv list \<Rightarrow> service \<Rightarrow> (error + unit) \<times> service" where
  "localImagePuts imageFiles defKey [] s = (Inr (), s)"
| "localImagePuts imageFiles defKey (img # imgs) s =
     (case localImagePut imageFiles defKey img s of
        (Inl err, s') \<Rightarrow> (Inl err, s')
      | (Inr u, s') \<Rightarrow> localImagePuts imageFiles defKey imgs s')"

text \<open>
  \<open>loadExtension\<close>, with \<open>src\<close> for \<open>parameters.source\<close>. The checks of \<open>clearIndex\<close>,
  \<open>sanitizeObject\<close> for the abstract and \<open>def.images.filter\<close> run inside the \<open>try\<close>, in
  this order; by the time one of the last two throws, the requests before it have been
  issued, and they are served. Every image of a
  validated manifest is an object, so the reads \<open>image.type\<close> do not throw. Where the put
  of the abstract fails the model stops; the requests for images that the source has
  started by then are left out.
\<close>

definition loadExtension ::
    "env \<Rightarrow> service \<Rightarrow> jv \<Rightarrow> jv \<Rightarrow> File list \<Rightarrow> (error + unit) \<times> service" where
  "loadExtension e s def src imageFiles =
     (case clearIndexCheck IMAGES_STORE ''avatarKey'' (getProp def ''key'') of
        Inl err \<Rightarrow> (Inl (ExtensionLoadingFailed err), s)
      | Inr u \<Rightarrow>
          (case clearIndexRun (database s) IMAGES_STORE ''avatarKey'' (getProp def ''key'') of
             (clearImages, db1) \<Rightarrow>
               (case sanitizeObject (injectionPatterns s)
                       (JObj [(''key'', getProp def ''key''),
                              (''description'', getProp def ''description''),
                              (''source'', src)]) 0 of
                  (Inl err, ps) \<Rightarrow>
                    (Inl (ExtensionLoadingFailed (SanitizeError err)),
                     s\<lparr>injectionPatterns := ps, database := db1\<rparr>)
                | (Inr sanitizedAbstract, ps) \<Rightarrow>
                    (case put db1 ABSTRACTS_STORE sanitizedAbstract JUndefined of
                       (abstractPut, db2) \<Rightarrow>
                         (let s2 = s\<lparr>injectionPatterns := ps, database := db2\<rparr>
                          in case getProp def ''images'' of
                               JArr images \<Rightarrow>
                                 (case clearImages of
                                    Inl err \<Rightarrow> (Inl (handleError ''loadExtension'' err), s2)
                                  | Inr u \<Rightarrow>
                                      (case abstractPut of
                                         Inl err \<Rightarrow> (Inl (handleError ''loadExtension'' err), s2)
                                       | Inr u \<Rightarrow>
                                           (let urlImageSources =
                                                  filter (\<lambda>img. getProp img ''type'' = JStr ''url'') images;
                                                localImageSources =
                                                  filter (\<lambda>img. getProp img ''type'' = JStr ''local'') images;
                                                s3 = fold (urlImagePut e (getProp def ''key'')) urlImageSources s2
                                            in case localImagePuts imageFiles (getProp def ''key'')
                                                      localImageSources s3 of
                                                 (Inl err, s4) \<Rightarrow>
                                                   (Inl (handleError ''loadExtension'' err), s4)
                                               | (Inr u, s4) \<Rightarrow> (Inr (), s4))))
                             | v \<Rightarrow> (Inl (ExtensionLoadingFailed TypeError), s2))))))"

definition download :: "env \<Rightarrow> service \<Rightarrow> string \<Rightarrow> (error + unit) \<times> service" where
  "download e s url =
     (let urlValidation = validateUrl (urlParser e) (JStr url)
      in if \<not> isValid urlValidation then (Inl (InvalidUrl (errors urlValidation)), s)
         else (case checkRateLimit (rateLimits s) (clock e) (''download:'' @ url) 10 60000 of
                 (False, m) \<Rightarrow> (Inl RateLimitExceeded, s\<lparr>rateLimits := m\<rparr>)
               | (True, m) \<Rightarrow>
                   (case httpJson e url of
                      Inl err \<Rightarrow> (Inl (handleError ''download'' err), s\<lparr>rateLimits := m\<rparr>)
                    | Inr def \<Rightarrow>
                        (case validateAvatarManifest (injectionPatterns s) (urlParser e) def of
                           (manifestValidation, ps) \<Rightarrow>
                             (let s1 = s\<lparr>rateLimits := m, injectionPatterns := ps\<rparr>
                              in if \<not> isValid manifestValidation
                                 then (Inl (handleError ''download''
                                              (InvalidManifest (errors manifestValidation))), s1)
                                 else (case loadExtension e s1
                                              (case sanitizedValue manifestValidation of
                                                 Some v \<Rightarrow> v | None \<Rightarrow> JUndefined)
                                              (JStr url) [] of
                                         (Inl err, s2) \<Rightarrow> (Inl (handleError ''download'' err), s2)
                                       | (Inr u, s2) \<Rightarrow> (Inr (), s2)))))))"

text \<open>
  \<open>import\<close>. Every manifest file is validated when the operation starts; then the files
  are read, parsed and loaded, here one after the other. \<open>is_blank\<close> is
  \<open>!result || result.trim().length === 0\<close>.
\<close>

definition is_blank :: "string \<Rightarrow> bool" where
  "is_blank s = (\<forall>c\<in>set s. cc_match Space c)"

definition importManifest :: "env \<Rightarrow> File list \<Rightarrow> service \<Rightarrow> File \<Rightarrow> (error + unit) \<times> service" where
  "importManifest e imageFiles s file =
     (if is_blank (file_text file) then (Inl EmptyFile, s)
      else (case jsonParse e (file_text file) of
              None \<Rightarrow> (Inl InvalidJson, s)
            | Some parsed \<Rightarrow>
                (if \<not> truthy parsed \<or> \<not> is_object parsed then (Inl InvalidJson, s)
                 else (case validateAvatarManifest (injectionPatterns s) (urlParser e) parsed of
                         (manifestValidation, ps) \<Rightarrow>
                           (let s1 = s\<lparr>injectionPatterns := ps\<rparr>
                            in if \<not> isValid manifestValidation
                               then (Inl (InvalidManifest (errors manifestValidation)), s1)
                               else (let validatedImageFiles =
                                           filter (\<lambda>imageFile. isValid (validateFile imageFile)) imageFiles
                                     in loadExtension e s1
                                          (case sanitizedValue manifestValidation of
                                             Some v \<Rightarrow> v | None \<Rightarrow> JUndefined)
                                          JUndefined validatedImageFiles))))))"

fun importManifests :: "env \<Rightarrow> File list \<Rightarrow> service \<Rightarrow> File list \<Rightarrow> (error + unit) \<times> service" where
  "importManifests e imageFiles s [] = (Inr (), s)"
| "importManifests e imageFiles s (file # files) =
     (case importManifest e imageFiles s file of
        (Inl err, s') \<Rightarrow> (Inl err, s')
      | (Inr u, s') \<Rightarrow> importManifests e imageFiles s' files)"

definition avatars_import :: "env \<Rightarrow> service \<Rightarrow> File list \<Rightarrow> File list \<Rightarrow> (error + unit) \<times> service" where
  "avatars_import e s files imageFiles =
     (if files = [] then (Inl NoFiles, s)
      else (case find (\<lambda>file. \<not> isValid (validateFile file)) files of
              Some file \<Rightarrow>
                (Inl (handleError ''import''
                        (InvalidFile (file_name file) (errors (validateFile file)))), s)
            | None \<Rightarrow>
                (case importManifests e imageFiles s files of
                   (Inl err, s') \<Rightarrow> (Inl (handleError ''import'' err), s')
                 | (Inr u, s') \<Rightarrow> (Inr (), s'))))"

definition getAbstracts :: "service \<Rightarrow> (error + jv) \<times> IDBDatabase" where
  "getAbstracts s = getAll (database s) ABSTRACTS_STORE"

text \<open>
  \<open>delete(key)\<close> of the AvatarsService: the abstract is deleted in the \<open>then\<close> of the
  promise of \<open>clearIndex\<close>, and the \<open>catch\<close> after it turns every rejection into one
  message. An error of the checks of \<open>clearIndex\<close> is thrown before the promise exists.
\<close>

definition avatars_delete :: "service \<Rightarrow> string \<Rightarrow> (error + unit) \<times> service" where
  "avatars_delete s key =
     (case validateString (injectionPatterns s) (JStr key) 64 of
        (keyValidation, ps) \<Rightarrow>
          (let s1 = s\<lparr>injectionPatterns := ps\<rparr>
           in if \<not> isValid keyValidation then (Inl (InvalidKey (errors keyValidation)), s1)
              else (case clearIndexCheck IMAGES_STORE ''avatarKey'' (JStr key) of
                      Inl err \<Rightarrow> (Inl err, s1)
                    | Inr u \<Rightarrow>
                        (case clearIndexRun (database s1) IMAGES_STORE ''avatarKey'' (JStr key) of
                           (Inl err, db1) \<Rightarrow> (Inl FailedDeleteAvatar, s1\<lparr>database := db1\<rparr>)
                         | (Inr u, db1) \<Rightarrow>
                             (case delete db1 ABSTRACTS_STORE (JStr key) of
                                (Inl err, db2) \<Rightarrow> (Inl FailedDeleteAvatar, s1\<lparr>database := db2\<rparr>)
                              | (Inr u, db2) \<Rightarrow> (Inr (), s1\<lparr>database := db2\<rparr>))))))"

subsection \<open>Example services\<close>

definition hero_db :: "(request \<Rightarrow> bool) \<Rightarrow> IDBDatabase" where
  "hero_db f = \<lparr>stores = avatar_stores, rows = hero_rows, failing = f, issued = []\<rparr>"

definition hero_service :: "(request \<Rightarrow> bool) \<Rightarrow> service" where
  "hero_service f =
     \<lparr>injectionPatterns = INJECTION_PATTERNS, rateLimits = Map.empty, database = hero_db f\<rparr>"

text \<open>The engine fails to delete the image \<open>profile\<close> of \<open>hero\<close>, and nothing else.\<close>

definition profile_delete_fails :: "request \<Rightarrow> bool" where
  "profile_delete_fails r = (r = ReqDelete ''images'' (JArr [JStr ''profile'', JStr ''hero'']))"

text \<open>A service that has just been created, on an empty database.\<close>

definition new_service :: service where
  "new_service =
     \<lparr>injectionPatterns = INJECTION_PATTERNS, rateLimits = Map.empty,
      database = \<lparr>stores = avatar_stores, rows = (\<lambda>s. []), failing = (\<lambda>r. False), issued = []\<rparr>\<rparr>"

subsection \<open>The scenario with a script in the key\<close>

definition script_key :: string where
  "script_key = ''<script>alert(1)</script>''"

definition script_manifest :: jv where
  "script_manifest =
     JObj [(''key'', JStr script_key), (''description'', JStr ''A test avatar''), (''images'', JArr [])]"

definition quoted :: "string \<Rightarrow> string" where
  "quoted s = [CHR 0x22] @ s @ [CHR 0x22]"

text \<open>The manifest as the JSON text of a file.\<close>

definition script_manifest_text :: string where
  "script_manifest_text =
     ''{'' @ quoted ''key'' @ '':'' @ quoted script_key @ '','' @
     quoted ''description'' @ '':'' @ quoted ''A test avatar'' @ '','' @
     quoted ''images'' @ '':[]}''"

definition script_manifest_file :: File where
  "script_manifest_file =
     \<lparr>file_name = ''manifest.json'', file_size = length script_manifest_text,
      file_type = ''application/json'', file_text = script_manifest_text\<rparr>"

text \<open>
  The manifest is served at \<open>https://example.com/script.json\<close>; no other address answers,
  and the JSON parser is given on the text of the file.
\<close>

definition script_env :: env where
  "script_env =
     \<lparr>urlParser = map_of [(''https://example.com/script.json'',
                            \<lparr>protocol = ''https:'', hostname = ''example.com''\<rparr>)],
      clock = 0,
      httpJson = (\<lambda>u. if u = ''https://example.com/script.json'' then Inr script_manifest
                       else Inl (HttpError 404)),
      httpBlob = (\<lambda>u. Inl (HttpError 404)),
      jsonParse = (\<lambda>t. if t = script_manifest_text then Some script_manifest else None)\<rparr>"

subsection \<open>The scenario with one image that cannot be fetched\<close>

text \<open>
  The manifest of the integration test "should handle partial download failures
  gracefully", served at \<open>https://example.com/partial-manifest.json\<close>. The first image
  answers with a blob of 13 bytes; the request for the second image fails, and so does a
  request for any other address. \<open>known_urls\<close> is what \<open>new URL\<close> gives on the three
  addresses. The parser is the table given to \<open>partial_env\<close>: with \<open>known_urls\<close> it
  rejects every other string, with \<open>lenient_urls\<close> it also accepts the two image addresses
  as they stand in the sanitized manifest, with slashes written as entities, for which the
  URL standard gives the host \<open>&\<close>.
\<close>

definition partial_manifest :: jv where
  "partial_manifest = JObj
     [(''key'', JStr ''partial-avatar''),
      (''description'', JStr ''Avatar with some failing images''),
      (''images'', JArr
         [JObj [(''type'', JStr ''url''), (''key'', JStr ''standard''),
                (''source'', JStr ''https://example.com/working-image.png'')],
          JObj [(''type'', JStr ''url''), (''key'', JStr ''broken''),
                (''source'', JStr ''https://example.com/broken-image.png'')]])]"

definition known_urls :: "(string \<times> URL) list" where
  "known_urls =
    [(''https://example.com/partial-manifest.json'', \<lparr>protocol = ''https:'', hostname = ''example.com''\<rparr>),
     (''https://example.com/working-image.png'', \<lparr>protocol = ''https:'', hostname = ''example.com''\<rparr>),
     (''https://example.com/broken-image.png'', \<lparr>protocol = ''https:'', hostname = ''example.com''\<rparr>)]"

definition lenient_urls :: "(string \<times> URL) list" where
  "lenient_urls = known_urls @
    [(''https:&#x2F;&#x2F;example.com&#x2F;working-image.png'', \<lparr>protocol = ''https:'', hostname = ''&''\<rparr>),
     (''https:&#x2F;&#x2F;example.com&#x2F;broken-image.png'', \<lparr>protocol = ''https:'', hostname = ''&''\<rparr>)]"

definition partial_env :: "(string \<times> URL) list \<Rightarrow> env" where
  "partial_env urls =
     \<lparr>urlParser = map_of urls,
      clock = 0,
      httpJson = (\<lambda>u. if u = ''https://example.com/partial-manifest.json'' then Inr partial_manifest
                       else Inl (HttpError 404)),
      httpBlob = (\<lambda>u. if u = ''https://example.com/working-image.png'' then Inr 13
                       else Inl (HttpError 0)),
      jsonParse = (\<lambda>t. None)\<rparr>"

text \<open>The manifest after validation, and the abstract that the ingestion writes.\<close>

definition sanitized_partial_manifest :: jv where
  "sanitized_partial_manifest = JObj
     [(''key'', JStr ''partial-avatar''),
      (''description'', JStr ''Avatar with some failing images''),
      (''images'', JArr
         [JObj [(''type'', JStr ''url''), (''key'', JStr ''standard''),
                (''source'', JStr ''https:&#x2F;&#x2F;example.com&#x2F;working-image.png'')],
          JObj [(''type'', JStr ''url''), (''key'', JStr ''broken''),
                (''source'', JStr ''https:&#x2F;&#x2F;example.com&#x2F;broken-image.png'')]])]"

definition partial_abstract :: jv where
  "partial_abstract = JObj
     [(''key'', JStr ''partial-avatar''),
      (''description'', JStr ''Avatar with some failing images''),
      (''source'', JStr ''https:&#x2F;&#x2F;example.com&#x2F;partial-manifest.json'')]"

text \<open>The database after the ingestion: the abstract and no image.\<close>

definition partial_db :: IDBDatabase where
  "partial_db =
     \<lparr>stores = avatar_stores,
      rows = (\<lambda>s. [])(''abstracts'' := [(JStr ''partial-avatar'', partial_abstract)]),
      failing = (\<lambda>r. False),
      issued = [ReqPut ''abstracts'' partial_abstract JUndefined,
                ReqIndexKeys ''images'' ''avatarKey'' (JStr ''partial-avatar'')]\<rparr>"


section \<open>Evaluation\<close>

text \<open>
  The equations of these functions have a variable for every argument, so the simplifier
  would unfold them without end on a symbolic argument; the proofs below name them where
  they are needed.
\<close>

declare sanitizeObject.simps [simp del] rx_find.simps [simp del] validateString.simps [simp del]
  validateUrl.simps [simp del]

text \<open>
  \<open>toLowerChar\<close> on the bits of a character: an upper-case letter below 128 has the bits
  010 in front of a number from 1 to 26, one above 128 has the bits 110 in front of a
  number other than 23 and 31, and the lower-case letter has a 1 for the third bit.
  Evaluation uses this equation in place of the table.
\<close>

lemma toLowerChar_code [code]:
  "toLowerChar (Char b0 b1 b2 b3 b4 b5 b6 b7) =
     (if b6 \<and> \<not> b5
           \<and> (\<not> b7 \<and> (b0 \<or> b1 \<or> b2 \<or> b3 \<or> b4) \<and> \<not> (b4 \<and> b3 \<and> (b2 \<or> (b1 \<and> b0)))
              \<or> b7 \<and> \<not> (b4 \<and> b2 \<and> b1 \<and> b0))
      then Char b0 b1 b2 b3 b4 True b6 b7
      else Char b0 b1 b2 b3 b4 b5 b6 b7)"
  by (cases b7; cases b6; cases b5;
      simp add: toLowerChar_def upper_chars_def lower_chars_def latin_upper_chars_def
        latin_lower_chars_def)

section \<open>Properties of the validation engine\<close>

subsection \<open>validateString\<close>

text \<open>
  The pattern objects keep \<open>lastIndex\<close> between two calls: the second of two calls with
  the same string \<open>a;b\<close> starts its search behind the semicolon and accepts the string
  that the first call has rejected. This is why the validators pass the pattern objects on.
\<close>

lemma validateString_is_stateful:
  "fst (validateString INJECTION_PATTERNS (JStr ''a;b'') 100) = invalid [MaliciousContent]"
  "fst (validateString (snd (validateString INJECTION_PATTERNS (JStr ''a;b'') 100)) (JStr ''a;b'') 100)
     = valid (Some (JStr ''a;b''))"
  by code_simp+

text \<open>
  The keys are compared in lower case with a list that holds some names in mixed case, so
  \<open>toString\<close>, \<open>valueOf\<close> and \<open>hasOwnProperty\<close> are never found.
\<close>

lemma is_dangerous_cases:
  "is_dangerous ''__PROTO__''" "is_dangerous ''constructor''"
  "\<not> is_dangerous ''toString''" "\<not> is_dangerous ''valueOf''" "\<not> is_dangerous ''hasOwnProperty''"
  by code_simp+

subsection \<open>sanitizeObject\<close>

text \<open>
  A string that matches no injection pattern in a new service, and the two kinds of
  container below the depth limit.
\<close>

lemma validateString_clean:
  "some_test INJECTION_PATTERNS s = (False, INJECTION_PATTERNS) \<Longrightarrow> length s \<le> n \<Longrightarrow>
   validateString INJECTION_PATTERNS (JStr s) n
     = (valid (Some (JStr (sanitizeHtml s))), INJECTION_PATTERNS)"
  by (simp add: validateString.simps)

lemma sanitizeObject_clean_string:
  "some_test INJECTION_PATTERNS s = (False, INJECTION_PATTERNS) \<Longrightarrow> length s \<le> 10000 \<Longrightarrow> d \<le> 10 \<Longrightarrow>
   sanitizeObject INJECTION_PATTERNS (JStr s) d = (Inr (JStr (sanitizeHtml s)), INJECTION_PATTERNS)"
  by (simp add: sanitizeObject.simps validateString.simps MAX_OBJECT_DEPTH_def
        MAX_STRING_LENGTH_def valid_def)

lemma sanitizeObject_object:
  "d \<le> 10 \<Longrightarrow> \<forall>k\<in>set (map fst es). \<not> is_dangerous k \<Longrightarrow>
   sanitizeObject ps (JObj es) d
     = (case sanitizeEntries ps es (d + 1) of (es', ps') \<Rightarrow> (Inr (JObj es'), ps'))"
proof -
  assume d: "d \<le> 10" and k: "\<forall>k\<in>set (map fst es). \<not> is_dangerous k"
  from k have "filter is_dangerous (map fst es) = []" by (simp add: filter_empty_conv)
  with d show ?thesis
    by (simp add: sanitizeObject.simps [of _ "JObj _"] MAX_OBJECT_DEPTH_def valid_def Let_def)
qed

lemma sanitizeObject_array:
  "d \<le> 10 \<Longrightarrow> length xs \<le> 1000 \<Longrightarrow>
   sanitizeObject ps (JArr xs) d
     = (case sanitizeItems ps xs (d + 1) of
          (Inl e, ps') \<Rightarrow> (Inl e, ps') | (Inr ys, ps') \<Rightarrow> (Inr (JArr ys), ps'))"
  by (simp add: sanitizeObject.simps [of _ "JArr _"] MAX_OBJECT_DEPTH_def MAX_ARRAY_LENGTH_def)

text \<open>
  What holds of the two limits: a value at a depth above 10 and an array of more than 1000
  items are errors of the call that meets them, and the error of an item of an array is
  the error of the array. An array of exactly 1000 numbers and ten arrays inside each
  other pass.
\<close>

lemma sanitizeObject_too_deep:
  "depth > 10 \<Longrightarrow> sanitizeObject ps obj depth = (Inl DepthExceeded, ps)"
  by (simp add: sanitizeObject.simps MAX_OBJECT_DEPTH_def)

lemma sanitizeObject_long_array:
  "depth \<le> 10 \<Longrightarrow> length xs > 1000 \<Longrightarrow> sanitizeObject ps (JArr xs) depth = (Inl ArrayTooLong, ps)"
  by (simp add: sanitizeObject.simps MAX_OBJECT_DEPTH_def MAX_ARRAY_LENGTH_def)

lemma sanitizeItems_numbers:
  "depth \<le> 10 \<Longrightarrow> sanitizeItems ps (map JNum ns) depth = (Inr (map JNum ns), ps)"
  by (induction ns) (simp_all add: sanitizeObject.simps MAX_OBJECT_DEPTH_def)

lemma sanitizeObject_array_at_limit:
  "length ns = 1000 \<Longrightarrow> sanitizeObject ps (JArr (map JNum ns)) 0 = (Inr (JArr (map JNum ns)), ps)"
  by (simp add: sanitizeObject_array sanitizeItems_numbers)

lemma sanitizeObject_depth_at_limit:
  "fst (sanitizeObject INJECTION_PATTERNS (((\<lambda>v. JArr [v]) ^^ 10) (JNum 1)) 0)
     = Inr (((\<lambda>v. JArr [v]) ^^ 10) (JNum 1))"
  "fst (sanitizeObject INJECTION_PATTERNS (((\<lambda>v. JArr [v]) ^^ 11) (JNum 1)) 0) = Inl DepthExceeded"
  by code_simp+

text \<open>
  An object does not pass on the error of a property: whatever its values are, with keys
  that are not dangerous and at a depth of at most 10 the call returns an object.
\<close>

lemma sanitizeObject_object_catches:
  assumes "depth \<le> 10" and "\<forall>k\<in>set (map fst es). \<not> is_dangerous k"
  shows "\<exists>es'. fst (sanitizeObject ps (JObj es) depth) = Inr (JObj es')"
  using sanitizeObject_object [OF assms, of ps]
  by (cases "sanitizeEntries ps es (depth + 1)") simp

text \<open>
  Claim C3 says that sanitizeObject raises a fatal error on every value nested deeper than
  10, and the unit test "should reject objects that are too deep" expects the error for
  fifteen nested objects. The error of the value at depth 11 is raised inside the \<open>try\<close> of
  the loop over the properties of the object at depth 10, which drops the property: on the
  value of the test sanitizeObject returns the first eleven objects and raises nothing.
\<close>

theorem sanitizeObject_deep_object_returns:
  "fst (sanitizeObject INJECTION_PATTERNS (deepObj 15) 0) = Inr (deepObj 10)"
  by code_simp

text \<open>
  An object with a dangerous key among its own keys is an error, with one message for each
  such key.
\<close>

lemma sanitizeObject_rejects_dangerous_key:
  assumes "depth \<le> 10" and "k \<in> set (map fst es)" and "is_dangerous k"
  shows "sanitizeObject ps (JObj es) depth
           = (Inl (InvalidObjectKeys (map DangerousKey (filter is_dangerous (map fst es)))), ps)"
proof -
  from assms(2,3) have "filter is_dangerous (map fst es) \<noteq> []"
    by (auto simp: filter_empty_conv)
  with assms(1) show ?thesis
    by (simp add: sanitizeObject.simps [of _ "JObj _"] MAX_OBJECT_DEPTH_def Let_def invalid_def)
qed

text \<open>
  Claim C4 says that sanitizeObject succeeds on an object with a reserved key and strips
  the key, and the unit test "should remove dangerous keys" expects \<open>name\<close> and \<open>age\<close> to
  remain. validateObjectKeys runs before the loop that passes over the dangerous keys and
  reports the key, so sanitizeObject throws on the object of the test.
\<close>

theorem sanitizeObject_dangerous_key_throws:
  "fst (sanitizeObject INJECTION_PATTERNS dangerousObj 0)
     = Inl (InvalidObjectKeys [DangerousKey ''constructor''])"
  by code_simp

subsection \<open>validateUrl\<close>

lemma startsWith_append: "startsWith s (p @ q) \<Longrightarrow> startsWith s p"
  by (induction s p rule: startsWith.induct) auto

lemma is_local_172_16: "startsWith h ''172.16.'' \<Longrightarrow> is_local_host h"
  using startsWith_append [of h "''172.''" "''16.''"] by (simp add: is_local_host_def)

text \<open>
  Claim C8: a URL whose scheme is not http or https, or whose hostname is localhost or
  127.0.0.1 or starts with 192.168., 10. or 172.16., is invalid for validateUrl. The
  theorem holds for every parser; what the parser rejects is invalid as well.
\<close>

theorem validateUrl_rejects_unsafe:
  assumes "parse url = Some urlObj"
    and "protocol urlObj \<notin> {''http:'', ''https:''}
         \<or> hostname urlObj = ''localhost'' \<or> hostname urlObj = ''127.0.0.1''
         \<or> startsWith (hostname urlObj) ''192.168.'' \<or> startsWith (hostname urlObj) ''10.''
         \<or> startsWith (hostname urlObj) ''172.16.''"
  shows "\<not> isValid (validateUrl parse (JStr url))"
proof (cases "url = []")
  case True
  then show ?thesis by (simp add: validateUrl.simps invalid_def)
next
  case False
  from assms(2) have "protocol urlObj \<notin> set allowedProtocols \<or> is_local_host (hostname urlObj)"
    using is_local_172_16 [of "hostname urlObj"]
    by (auto simp: allowedProtocols_def is_local_host_def)
  with False assms(1) show ?thesis
    by (auto simp: validateUrl.simps invalid_def valid_def Let_def)
qed

theorem validateUrl_rejects_unsafe_witness:
  "sample_parse ''ftp://example.com/file.txt'' = Some \<lparr>protocol = ''ftp:'', hostname = ''example.com''\<rparr>
   \<and> \<not> isValid (validateUrl sample_parse (JStr ''ftp://example.com/file.txt''))
   \<and> sample_parse ''http://172.16.0.1'' = Some \<lparr>protocol = ''http:'', hostname = ''172.16.0.1''\<rparr>
   \<and> \<not> isValid (validateUrl sample_parse (JStr ''http://172.16.0.1''))"
  using validateUrl_rejects_unsafe [of sample_parse "''ftp://example.com/file.txt''"
            "\<lparr>protocol = ''ftp:'', hostname = ''example.com''\<rparr>"]
        validateUrl_rejects_unsafe [of sample_parse "''http://172.16.0.1''"
            "\<lparr>protocol = ''http:'', hostname = ''172.16.0.1''\<rparr>"]
  by (simp add: validateUrl.simps sample_parse_def sample_urls_def)

text \<open>
  Claim C10: a URL with the scheme http or https whose hostname starts with 172. is invalid
  with the error for local and private addresses, also when the address is outside of
  172.16.0.0/12, such as 172.217.0.0.
\<close>

theorem validateUrl_rejects_172_prefix:
  assumes "url \<noteq> []" and "parse url = Some urlObj"
    and "protocol urlObj \<in> {''http:'', ''https:''}"
    and "startsWith (hostname urlObj) ''172.''"
  shows "\<not> isValid (validateUrl parse (JStr url))
         \<and> LocalAddress \<in> set (errors (validateUrl parse (JStr url)))"
proof -
  from assms(4) have "is_local_host (hostname urlObj)" by (simp add: is_local_host_def)
  with assms(1,2) show ?thesis
    by (auto simp: validateUrl.simps invalid_def valid_def Let_def)
qed

theorem validateUrl_rejects_172_prefix_witness:
  "sample_parse ''http://172.217.0.0'' = Some \<lparr>protocol = ''http:'', hostname = ''172.217.0.0''\<rparr>
   \<and> \<not> startsWith ''172.217.0.0'' ''172.16.''
   \<and> \<not> isValid (validateUrl sample_parse (JStr ''http://172.217.0.0''))
   \<and> LocalAddress \<in> set (errors (validateUrl sample_parse (JStr ''http://172.217.0.0'')))"
  using validateUrl_rejects_172_prefix [of "''http://172.217.0.0''" sample_parse
            "\<lparr>protocol = ''http:'', hostname = ''172.217.0.0''\<rparr>"]
  by (simp add: validateUrl.simps sample_parse_def sample_urls_def)

subsection \<open>checkRateLimit\<close>

lemma checkRateLimits_in_window:
  "m key = Some e \<Longrightarrow> \<forall>t\<in>set ts. t \<le> resetTime e \<Longrightarrow> count e + int (length ts) \<le> n \<Longrightarrow>
   checkRateLimits m ts key n w
     = (replicate (length ts) True, m(key \<mapsto> e\<lparr>count := count e + int (length ts)\<rparr>))"
proof (induction ts arbitrary: m e)
  case Nil
  then show ?case by (simp add: map_upd_triv)
next
  case (Cons t ts)
  let ?e = "e\<lparr>count := count e + 1\<rparr>"
  let ?m = "m(key \<mapsto> ?e)"
  from Cons.prems have step: "checkRateLimit m t key n w = (True, ?m)"
    by (simp add: checkRateLimit_def)
  have "checkRateLimits ?m ts key n w
          = (replicate (length ts) True, ?m(key \<mapsto> ?e\<lparr>count := count ?e + int (length ts)\<rparr>))"
    using Cons.prems by (intro Cons.IH) auto
  moreover have "?m(key \<mapsto> ?e\<lparr>count := count ?e + int (length ts)\<rparr>)
                  = m(key \<mapsto> e\<lparr>count := count e + int (length (t # ts))\<rparr>)"
    by (simp add: add.assoc)
  ultimately have "checkRateLimits ?m ts key n w
          = (replicate (length ts) True, m(key \<mapsto> e\<lparr>count := count e + int (length (t # ts))\<rparr>))"
    by (simp only:)
  with step show ?case by (simp only: checkRateLimits.simps prod.case replicate_Suc length_Cons)
qed

lemma checkRateLimit_opens_window:
  "(case m key of None \<Rightarrow> True | Some e \<Rightarrow> t0 > resetTime e) \<Longrightarrow>
   checkRateLimit m t0 key n w = (True, m(key \<mapsto> \<lparr>count = 1, resetTime = t0 + w\<rparr>))"
  by (cases "m key") (simp_all add: checkRateLimit_def)

lemma checkRateLimits_first_window:
  assumes "case m key of None \<Rightarrow> True | Some e \<Rightarrow> t0 > resetTime e"
    and "int (length ts) + 1 \<le> n"
    and "\<forall>t\<in>set ts. t \<le> t0 + w"
  shows "checkRateLimits m (t0 # ts) key n w
           = (replicate (Suc (length ts)) True,
              m(key \<mapsto> \<lparr>count = 1 + int (length ts), resetTime = t0 + w\<rparr>))"
proof -
  let ?e = "\<lparr>count = 1, resetTime = t0 + w\<rparr>"
  let ?m = "m(key \<mapsto> ?e)"
  have "checkRateLimits ?m ts key n w
          = (replicate (length ts) True, ?m(key \<mapsto> ?e\<lparr>count := count ?e + int (length ts)\<rparr>))"
    using assms(2,3) by (intro checkRateLimits_in_window) auto
  moreover have "checkRateLimit m t0 key n w = (True, ?m)"
    using assms(1) by (rule checkRateLimit_opens_window)
  ultimately show ?thesis by simp
qed

text \<open>
  Claim C7: let the call at time \<open>t0\<close> open a window for the key (the key has no entry, or
  its window is over) and let the limit be \<open>n \<ge> 1\<close>. The call at \<open>t0\<close> and the \<open>n - 1\<close>
  calls after it within the window return true; one more call within the window returns
  false and leaves the map, and so the counter, as it is; a call after the reset time
  returns true. A call for another key neither changes the entry of the key nor depends
  on it.
\<close>

theorem checkRateLimit_fixed_window:
  assumes "1 \<le> n"
    and "case m key of None \<Rightarrow> True | Some e \<Rightarrow> t0 > resetTime e"
    and "int (length ts) + 1 = n"
    and "\<forall>t\<in>set ts. t \<le> t0 + w"
    and "t \<le> t0 + w"
    and "t0 + w < t'"
    and "key' \<noteq> key"
  shows "fst (checkRateLimits m (t0 # ts) key n w) = replicate (nat n) True
       \<and> checkRateLimit (snd (checkRateLimits m (t0 # ts) key n w)) t key n w
           = (False, snd (checkRateLimits m (t0 # ts) key n w))
       \<and> fst (checkRateLimit (snd (checkRateLimits m (t0 # ts) key n w)) t' key n w) = True
       \<and> snd (checkRateLimit m1 now key' n' w') key = m1 key
       \<and> fst (checkRateLimit (m1(key := x)) now key' n' w') = fst (checkRateLimit m1 now key' n' w')"
proof -
  have run: "checkRateLimits m (t0 # ts) key n w
           = (replicate (Suc (length ts)) True,
              m(key \<mapsto> \<lparr>count = 1 + int (length ts), resetTime = t0 + w\<rparr>))"
    using assms(2,3,4) by (intro checkRateLimits_first_window) auto
  have len: "nat n = Suc (length ts)" using assms(3) by auto
  have a: "fst (checkRateLimits m (t0 # ts) key n w) = replicate (nat n) True"
    by (simp only: run len fst_conv)
  have b: "checkRateLimit (snd (checkRateLimits m (t0 # ts) key n w)) t key n w
           = (False, snd (checkRateLimits m (t0 # ts) key n w))"
    using assms(3,5) by (simp only: run snd_conv) (simp add: checkRateLimit_def)
  have c: "fst (checkRateLimit (snd (checkRateLimits m (t0 # ts) key n w)) t' key n w) = True"
    using assms(6) by (simp only: run snd_conv) (simp add: checkRateLimit_def)
  have d: "snd (checkRateLimit m1 now key' n' w') key = m1 key"
    using assms(7) by (simp add: checkRateLimit_def split: option.splits)
  have e: "fst (checkRateLimit (m1(key := x)) now key' n' w') = fst (checkRateLimit m1 now key' n' w')"
    using assms(7) by (simp add: checkRateLimit_def split: option.splits)
  from a b c d e show ?thesis by blast
qed

theorem checkRateLimit_fixed_window_witness:
  "fst (checkRateLimits Map.empty [0, 5] ''k'' 2 100) = [True, True]
   \<and> fst (checkRateLimit (snd (checkRateLimits Map.empty [0, 5] ''k'' 2 100)) 100 ''k'' 2 100) = False
   \<and> fst (checkRateLimit (snd (checkRateLimits Map.empty [0, 5] ''k'' 2 100)) 101 ''k'' 2 100) = True
   \<and> snd (checkRateLimit (snd (checkRateLimits Map.empty [0, 5] ''k'' 2 100)) 7 ''j'' 1 100) ''k''
       = snd (checkRateLimits Map.empty [0, 5] ''k'' 2 100) ''k''"
  using checkRateLimit_fixed_window [where n = 2 and m = Map.empty and key = "''k''" and ?t0.0 = 0
      and ts = "[5]" and w = 100 and t = 100 and t' = 101 and key' = "''j''"
      and ?m1.0 = "snd (checkRateLimits Map.empty [0, 5] ''k'' 2 100)" and now = 7 and n' = 1
      and w' = 100]
  by (simp add: numeral_2_eq_2)


section \<open>Properties of the DatabaseService\<close>

lemma map_of_upsert: "map_of (upsert k v t) k = Some v"
proof (cases "k \<in> fst ` set t")
  case True
  then have "map_of (map (\<lambda>(k', v'). if k' = k then (k, v) else (k', v')) t) k = Some v"
    by (induction t) (auto split: prod.splits)
  with True show ?thesis by (simp add: upsert_def)
next
  case False
  then have "map_of t k = None" by (simp add: map_of_eq_None_iff)
  with False show ?thesis by (simp add: upsert_def map_add_def)
qed





lemma put_success:
  assumes "put db storeName blob key = (Inr (), db')"
  shows "\<exists>def k. validateStoreName storeName = Inr ()
           \<and> (key \<noteq> JUndefined \<longrightarrow> validateKey key = Inr ())
           \<and> map_of (stores db) storeName = Some def
           \<and> primary_key (keyPath def) (sanitizeData blob) key = Some k
           \<and> db' = db\<lparr>issued := ReqPut storeName (sanitizeData blob) key # issued db,
                       rows := (rows db)(storeName := upsert k (sanitizeData blob) (rows db storeName))\<rparr>"
  using assms
  by (auto simp: put_def engine_def Let_def split: sum.splits if_splits option.splits prod.splits)

text \<open>
  Claim C5, as the code has it: when \<open>put(store, r, k)\<close> succeeds, \<open>get(store, k)\<close> returns
  \<open>sanitizeData r\<close>, the JSON copy of the record without the reserved names at its top
  level. \<open>put\<close> does not call sanitizeObject.
\<close>

theorem put_get_round_trip:
  assumes "put db storeName r key = (Inr (), db')"
    and "key \<noteq> JUndefined"
    and "\<not> failing db (ReqGet storeName key)"
  shows "fst (get db' storeName key) = Inr (sanitizeData r)"
proof -
  from put_success [OF assms(1)] assms(2) obtain def k where
    ok: "validateStoreName storeName = Inr ()" "validateKey key = Inr ()"
        "map_of (stores db) storeName = Some def"
    and pk: "primary_key (keyPath def) (sanitizeData r) key = Some k"
    and db': "db' = db\<lparr>issued := ReqPut storeName (sanitizeData r) key # issued db,
                       rows := (rows db)(storeName := upsert k (sanitizeData r) (rows db storeName))\<rparr>"
    by blast
  from pk assms(2) have "k = key" and "valid_key key"
    by (cases "keyPath def"; auto split: if_splits)+
  with ok assms(3) db' show ?thesis
    by (simp add: get_def engine_def map_of_upsert)
qed

theorem put_get_round_trip_witness:
  "fst (put notes_db ''notes'' html_note (JStr ''n1'')) = Inr ()
   \<and> fst (get (snd (put notes_db ''notes'' html_note (JStr ''n1''))) ''notes'' (JStr ''n1''))
       = Inr (sanitizeData html_note)"
proof -
  have ok: "fst (put notes_db ''notes'' html_note (JStr ''n1'')) = Inr ()"
    by code_simp
  then have p: "put notes_db ''notes'' html_note (JStr ''n1'')
                  = (Inr (), snd (put notes_db ''notes'' html_note (JStr ''n1'')))"
    by (simp add: prod_eq_iff)
  have k: "JStr ''n1'' \<noteq> JUndefined" by simp
  have f: "\<not> failing notes_db (ReqGet ''notes'' (JStr ''n1''))" by (simp add: notes_db_def)
  from ok put_get_round_trip [OF p k f] show ?thesis by simp
qed

text \<open>
  The claim as the spec has it compares with sanitizeObject: for the record
  \<open>{title: 'a<b'}\<close> the store returns the record as it was written, and sanitizeObject
  gives \<open>{title: 'a&lt;b'}\<close>.
\<close>

theorem put_get_is_not_sanitizeObject_counterexample:
  "fst (put notes_db ''notes'' html_note (JStr ''n1'')) = Inr ()
   \<and> fst (get (snd (put notes_db ''notes'' html_note (JStr ''n1''))) ''notes'' (JStr ''n1''))
       = Inr (JObj [(''title'', JStr ''a<b'')])
   \<and> fst (sanitizeObject INJECTION_PATTERNS html_note 0) = Inr (JObj [(''title'', JStr ''a&lt;b'')])
   \<and> JObj [(''title'', JStr ''a<b'')] \<noteq> JObj [(''title'', JStr ''a&lt;b'')]"
  by code_simp




section \<open>Properties of the AvatarsService\<close>

subsection \<open>delete\<close>

lemma engine_issued:
  "engine db req = (r, db') \<Longrightarrow>
     issued db' = req # issued db \<and> stores db' = stores db \<and> failing db' = failing db"
  by (cases req)
     (auto simp: engine_def Let_def split: if_splits option.splits prod.splits)

lemma engine_delete_rows:
  "engine db (ReqDelete st key) = (r, db') \<Longrightarrow> st' \<noteq> st \<Longrightarrow> rows db' st' = rows db st'"
  by (auto simp: engine_def Let_def split: if_splits option.splits prod.splits)

lemma engine_delete_ok:
  "\<not> failing db (ReqDelete st key) \<Longrightarrow> map_of (stores db) st = Some def \<Longrightarrow>
   engine db (ReqDelete st key)
     = (Some JUndefined,
        db\<lparr>issued := ReqDelete st key # issued db,
           rows := (rows db)(st := filter (\<lambda>(k, v). k \<noteq> key) (rows db st))\<rparr>)"
  by (simp add: engine_def Let_def)

lemma deleteKeys_frame:
  "deleteKeys db st keys = (ok, db') \<Longrightarrow>
     stores db' = stores db \<and> failing db' = failing db
     \<and> (\<forall>st'. st' \<noteq> st \<longrightarrow> rows db' st' = rows db st')
     \<and> set (issued db') \<subseteq> set (issued db) \<union> ReqDelete st ` set keys"
proof (induction keys arbitrary: db ok db')
  case Nil
  then show ?case by simp
next
  case (Cons key keys)
  obtain r db1 where e: "engine db (ReqDelete st key) = (r, db1)" by (cases "engine db (ReqDelete st key)")
  obtain ok1 db2 where d: "deleteKeys db1 st keys = (ok1, db2)" by (cases "deleteKeys db1 st keys")
  from Cons.prems e d have db': "db' = db2" by simp
  from Cons.IH [OF d] engine_issued [OF e] engine_delete_rows [OF e] show ?case
    unfolding db' by auto
qed

lemma filter_not_in_Cons:
  "filter (\<lambda>(k, v). k \<notin> set keys) (filter (\<lambda>(k, v). k \<noteq> key) xs)
     = filter (\<lambda>(k, v). k \<notin> set (key # keys)) xs"
  by (induction xs) auto

lemma extract_key_string:
  "extract_key (KeyPath p) v = Some (JStr q) \<longleftrightarrow> getProp v p = JStr q"
  by auto

lemma deleteKeys_ok:
  assumes "\<forall>r. \<not> failing db r" and "map_of (stores db) st = Some def"
  shows "\<exists>db'. deleteKeys db st keys = (True, db')
           \<and> rows db' st = filter (\<lambda>(k, v). k \<notin> set keys) (rows db st)"
  using assms
proof (induction keys arbitrary: db)
  case Nil
  then show ?case by simp
next
  case (Cons key keys)
  let ?db1 = "db\<lparr>issued := ReqDelete st key # issued db,
                  rows := (rows db)(st := filter (\<lambda>(k, v). k \<noteq> key) (rows db st))\<rparr>"
  from Cons.prems have e: "engine db (ReqDelete st key) = (Some JUndefined, ?db1)"
    by (simp add: engine_delete_ok)
  from Cons.prems have "\<forall>r. \<not> failing ?db1 r" "map_of (stores ?db1) st = Some def" by simp_all
  from Cons.IH [OF this] obtain db' where
    d: "deleteKeys ?db1 st keys = (True, db')"
    and r: "rows db' st = filter (\<lambda>(k, v). k \<notin> set keys) (rows ?db1 st)" by blast
  from r have "rows db' st
                 = filter (\<lambda>(k, v). k \<notin> set keys) (filter (\<lambda>(k, v). k \<noteq> key) (rows db st))"
    by (simp del: filter_filter)
  then have "rows db' st = filter (\<lambda>(k, v). k \<notin> set (key # keys)) (rows db st)"
    by (simp only: filter_not_in_Cons)
  moreover from e d have "deleteKeys db st (key # keys) = (True, db')" by simp
  ultimately show ?case by blast
qed

lemma set_insert_row: "set (insert_row r xs) = insert r (set xs)"
  by (induction xs) auto

lemma set_in_key_order: "set (in_key_order t) = set t"
proof -
  have "set (fold insert_row t acc) = set t \<union> set acc" for acc
    by (induction t arbitrary: acc) (auto simp: set_insert_row)
  then show ?thesis by (simp add: in_key_order_def)
qed

lemma clearIndexRun_frame:
  assumes "clearIndexRun db st i q = (r, db')" and "st' \<noteq> st"
  shows "rows db' st' = rows db st'
         \<and> (\<forall>k. ReqDelete st' k \<in> set (issued db') \<longrightarrow> ReqDelete st' k \<in> set (issued db))
         \<and> stores db' = stores db \<and> failing db' = failing db"
proof -
  obtain res db1 where e: "engine db (ReqIndexKeys st i q) = (res, db1)"
    by (cases "engine db (ReqIndexKeys st i q)")
  have rows1: "rows db1 = rows db"
    using e by (auto simp: engine_def Let_def split: if_splits option.splits prod.splits)
  note i1 = engine_issued [OF e]
  show ?thesis
  proof (cases "valid_key q")
    case q: True
    show ?thesis
    proof (cases "\<exists>keys. res = Some (JArr keys)")
      case True
      then obtain keys where res: "res = Some (JArr keys)" by blast
      let ?valid = "filter (\<lambda>key. validateKey key = Inr ()) keys"
      obtain ok db2 where d: "deleteKeys db1 st ?valid = (ok, db2)"
        by (cases "deleteKeys db1 st ?valid")
      from assms(1) q e res d have "db' = db2"
        by (cases ok) (simp_all add: clearIndexRun_def Let_def)
      with deleteKeys_frame [OF d] i1 rows1 assms(2) show ?thesis by auto
    next
      case False
      with assms(1) q e have "db' = db1"
        by (auto simp: clearIndexRun_def split: option.splits jv.splits)
      with i1 rows1 assms(2) show ?thesis by auto
    qed
  next
    case False
    with assms(1) have "db' = db" by (simp add: clearIndexRun_def)
    then show ?thesis by simp
  qed
qed

lemma clearIndexRun_ok:
  assumes "\<forall>r. \<not> failing db r" and "stores db = avatar_stores"
  shows "\<exists>db'. clearIndexRun db IMAGES_STORE ''avatarKey'' (JStr key) = (Inr (), db')
           \<and> (\<forall>(k, v)\<in>set (rows db' IMAGES_STORE).
                 \<not> (getProp v ''avatarKey'' = JStr key \<and> validateKey k = Inr ()))"
proof -
  let ?db1 = "db\<lparr>issued := ReqIndexKeys IMAGES_STORE ''avatarKey'' (JStr key) # issued db\<rparr>"
  let ?keys = "map fst (in_key_order
                          (filter (\<lambda>(k, v). extract_key (KeyPath ''avatarKey'') v = Some (JStr key))
                             (rows db IMAGES_STORE)))"
  let ?valid = "filter (\<lambda>key. validateKey key = Inr ()) ?keys"
  from assms have e: "engine db (ReqIndexKeys IMAGES_STORE ''avatarKey'' (JStr key)) = (Some (JArr ?keys), ?db1)"
    by (simp add: engine_def Let_def avatar_stores_def IMAGES_STORE_def)
  from assms have "\<forall>r. \<not> failing ?db1 r"
    and "map_of (stores ?db1) IMAGES_STORE
           = Some \<lparr>keyPath = KeyPaths [''key'', ''avatarKey''],
                   indexes = [(''avatarKey'', KeyPath ''avatarKey''),
                              (''type'', KeyPaths [''avatarKey'', ''type''])]\<rparr>"
    by (simp_all add: avatar_stores_def IMAGES_STORE_def)
  from deleteKeys_ok [OF this, of ?valid] obtain db' where
    d: "deleteKeys ?db1 IMAGES_STORE ?valid = (True, db')"
    and r: "rows db' IMAGES_STORE = filter (\<lambda>(k, v). k \<notin> set ?valid) (rows ?db1 IMAGES_STORE)"
    by blast
  from e d have "clearIndexRun db IMAGES_STORE ''avatarKey'' (JStr key) = (Inr (), db')"
    by (simp add: clearIndexRun_def Let_def)
  moreover have "\<forall>(k, v)\<in>set (rows db' IMAGES_STORE).
                 \<not> (getProp v ''avatarKey'' = JStr key \<and> validateKey k = Inr ())"
    unfolding r
    by (auto simp: image_iff set_in_key_order extract_key_string simp del: extract_key.simps)
  ultimately show ?thesis by blast
qed


lemma store_names_ok:
  "validateStoreName IMAGES_STORE = Inr ()" "validateStoreName ABSTRACTS_STORE = Inr ()"
  "toLowerCase ''avatarKey'' \<notin> set RESERVED_NAMES" "IMAGES_STORE \<noteq> ABSTRACTS_STORE"
  by code_simp+

lemma clearIndexCheck_images:
  "key \<noteq> [] \<Longrightarrow> clearIndexCheck IMAGES_STORE ''avatarKey'' (JStr key) = Inr ()"
  by (simp add: clearIndexCheck_def store_names_ok)

lemma delete_abstract_ok:
  assumes "\<not> failing db (ReqDelete ABSTRACTS_STORE (JStr key))" and "stores db = avatar_stores"
    and "toLowerCase key \<notin> set RESERVED_NAMES"
  shows "delete db ABSTRACTS_STORE (JStr key)
           = (Inr (), db\<lparr>issued := ReqDelete ABSTRACTS_STORE (JStr key) # issued db,
                          rows := (rows db)(ABSTRACTS_STORE :=
                             filter (\<lambda>(k, v). k \<noteq> JStr key) (rows db ABSTRACTS_STORE))\<rparr>)"
proof -
  from assms(2) have "map_of (stores db) ABSTRACTS_STORE = Some \<lparr>keyPath = KeyPath ''key'', indexes = []\<rparr>"
    by (simp add: avatar_stores_def ABSTRACTS_STORE_def)
  with assms(1,3) show ?thesis
    by (simp add: delete_def store_names_ok engine_delete_ok)
qed

text \<open>
  Claim C2, as the code has it. Let the key pass validateString and be non-empty. When the
  database has the stores of the service, no request fails and the key is not a reserved
  name, \<open>delete\<close> succeeds, no image that is indexed under the key and whose own key
  \<open>validateKey\<close> accepts is left, no abstract with the key is left, and the request that
  deletes the abstract is the last one issued. When the promise of \<open>clearIndex\<close> is
  rejected, \<open>delete\<close> fails, the store of the abstracts is as before and no request to
  delete an abstract has been issued: the deletion of the abstract is not attempted.
\<close>

theorem avatars_delete_contract:
  assumes "isValid (fst (validateString (injectionPatterns s) (JStr key) 64))"
    and "key \<noteq> []"
  shows "(stores (database s) = avatar_stores \<and> (\<forall>r. \<not> failing (database s) r)
          \<and> toLowerCase key \<notin> set RESERVED_NAMES
          \<longrightarrow> fst (avatars_delete s key) = Inr ()
            \<and> (\<forall>(k, v)\<in>set (rows (database (snd (avatars_delete s key))) IMAGES_STORE).
                  \<not> (getProp v ''avatarKey'' = JStr key \<and> validateKey k = Inr ()))
            \<and> JStr key \<notin> fst ` set (rows (database (snd (avatars_delete s key))) ABSTRACTS_STORE)
            \<and> hd (issued (database (snd (avatars_delete s key)))) = ReqDelete ABSTRACTS_STORE (JStr key))
       \<and> (fst (clearIndexRun (database s) IMAGES_STORE ''avatarKey'' (JStr key)) \<noteq> Inr ()
          \<longrightarrow> fst (avatars_delete s key) = Inl FailedDeleteAvatar
            \<and> rows (database (snd (avatars_delete s key))) ABSTRACTS_STORE
                = rows (database s) ABSTRACTS_STORE
            \<and> (\<forall>k. ReqDelete ABSTRACTS_STORE k \<in> set (issued (database (snd (avatars_delete s key))))
                  \<longrightarrow> ReqDelete ABSTRACTS_STORE k \<in> set (issued (database s))))"
proof -
  obtain kv ps where vs: "validateString (injectionPatterns s) (JStr key) 64 = (kv, ps)"
    by (cases "validateString (injectionPatterns s) (JStr key) 64")
  with assms(1) have kv: "isValid kv" by simp
  let ?s1 = "s\<lparr>injectionPatterns := ps\<rparr>"
  note chk = clearIndexCheck_images [OF assms(2)]
  have unfold: "avatars_delete s key =
      (case clearIndexRun (database s) IMAGES_STORE ''avatarKey'' (JStr key) of
         (Inl err, db1) \<Rightarrow> (Inl FailedDeleteAvatar, ?s1\<lparr>database := db1\<rparr>)
       | (Inr u, db1) \<Rightarrow>
           (case delete db1 ABSTRACTS_STORE (JStr key) of
              (Inl err, db2) \<Rightarrow> (Inl FailedDeleteAvatar, ?s1\<lparr>database := db2\<rparr>)
            | (Inr u, db2) \<Rightarrow> (Inr (), ?s1\<lparr>database := db2\<rparr>)))"
    using vs kv chk by (simp add: avatars_delete_def Let_def)
  have a: "fst (avatars_delete s key) = Inr ()
            \<and> (\<forall>(k, v)\<in>set (rows (database (snd (avatars_delete s key))) IMAGES_STORE).
                  \<not> (getProp v ''avatarKey'' = JStr key \<and> validateKey k = Inr ()))
            \<and> JStr key \<notin> fst ` set (rows (database (snd (avatars_delete s key))) ABSTRACTS_STORE)
            \<and> hd (issued (database (snd (avatars_delete s key)))) = ReqDelete ABSTRACTS_STORE (JStr key)"
    if st: "stores (database s) = avatar_stores" and nf: "\<forall>r. \<not> failing (database s) r"
      and nr: "toLowerCase key \<notin> set RESERVED_NAMES"
  proof -
    from clearIndexRun_ok [OF nf st, of key] obtain db1 where
      run: "clearIndexRun (database s) IMAGES_STORE ''avatarKey'' (JStr key) = (Inr (), db1)"
      and cleared: "\<forall>(k, v)\<in>set (rows db1 IMAGES_STORE).
                 \<not> (getProp v ''avatarKey'' = JStr key \<and> validateKey k = Inr ())"
      by blast
    from clearIndexRun_frame [OF run, of ABSTRACTS_STORE] st nf
    have st1: "stores db1 = avatar_stores" and nf1: "\<not> failing db1 (ReqDelete ABSTRACTS_STORE (JStr key))"
      by (simp_all add: store_names_ok(4) [symmetric])
    note del = delete_abstract_ok [OF nf1 st1 nr]
    from run del cleared show ?thesis
      by (auto simp: unfold store_names_ok(4))
  qed
  have b: "fst (avatars_delete s key) = Inl FailedDeleteAvatar
            \<and> rows (database (snd (avatars_delete s key))) ABSTRACTS_STORE
                = rows (database s) ABSTRACTS_STORE
            \<and> (\<forall>k. ReqDelete ABSTRACTS_STORE k \<in> set (issued (database (snd (avatars_delete s key))))
                  \<longrightarrow> ReqDelete ABSTRACTS_STORE k \<in> set (issued (database s)))"
    if fails: "fst (clearIndexRun (database s) IMAGES_STORE ''avatarKey'' (JStr key)) \<noteq> Inr ()"
  proof -
    obtain r db1 where
      run: "clearIndexRun (database s) IMAGES_STORE ''avatarKey'' (JStr key) = (r, db1)"
      by (cases "clearIndexRun (database s) IMAGES_STORE ''avatarKey'' (JStr key)")
    with fails obtain err where r: "r = Inl err" by (cases r) auto
    from clearIndexRun_frame [OF run, of ABSTRACTS_STORE] run r show ?thesis
      by (simp add: unfold store_names_ok(4) [symmetric])
  qed
  from a b show ?thesis by blast
qed

theorem avatars_delete_contract_witness:
  "fst (avatars_delete (hero_service (\<lambda>r. False)) ''hero'') = Inr ()
   \<and> rows (database (snd (avatars_delete (hero_service (\<lambda>r. False)) ''hero''))) IMAGES_STORE = []
   \<and> rows (database (snd (avatars_delete (hero_service (\<lambda>r. False)) ''hero''))) ABSTRACTS_STORE = []
   \<and> fst (avatars_delete (hero_service profile_delete_fails) ''hero'') = Inl FailedDeleteAvatar
   \<and> rows (database (snd (avatars_delete (hero_service profile_delete_fails) ''hero''))) ABSTRACTS_STORE
       = rows (database (hero_service profile_delete_fails)) ABSTRACTS_STORE"
proof -
  have v1: "isValid (fst (validateString (injectionPatterns (hero_service (\<lambda>r. False))) (JStr ''hero'') 64))"
    by code_simp
  have v2: "isValid (fst (validateString (injectionPatterns (hero_service profile_delete_fails)) (JStr ''hero'') 64))"
    by code_simp
  have ne: "''hero'' \<noteq> []" by simp
  have pre: "stores (database (hero_service (\<lambda>r. False))) = avatar_stores
             \<and> (\<forall>r. \<not> failing (database (hero_service (\<lambda>r. False))) r)
             \<and> toLowerCase ''hero'' \<notin> set RESERVED_NAMES"
    by (simp add: hero_service_def hero_db_def toLowerCase_def toLowerChar_def upper_chars_def
          lower_chars_def RESERVED_NAMES_def)
  have fails: "fst (clearIndexRun (database (hero_service profile_delete_fails)) IMAGES_STORE
                      ''avatarKey'' (JStr ''hero'')) \<noteq> Inr ()"
    by code_simp
  have i: "rows (database (snd (avatars_delete (hero_service (\<lambda>r. False)) ''hero''))) IMAGES_STORE = []"
    by code_simp
  have a: "rows (database (snd (avatars_delete (hero_service (\<lambda>r. False)) ''hero''))) ABSTRACTS_STORE = []"
    by code_simp
  from avatars_delete_contract [OF v1 ne] pre
       avatars_delete_contract [OF v2 ne] fails i a
  show ?thesis by blast
qed

text \<open>
  The claim as the spec has it: the engine fails to delete the image \<open>profile\<close> of
  \<open>hero\<close>. The requests that reach the engine are the read of the index and the two
  deletions of images, in the order of their keys; the abstract of \<open>hero\<close> is still there.
\<close>

theorem avatars_delete_best_effort_counterexample:
  "fst (clearIndexRun (hero_db profile_delete_fails) IMAGES_STORE ''avatarKey'' (JStr ''hero''))
     = Inl FailedClearIndex
   \<and> fst (avatars_delete (hero_service profile_delete_fails) ''hero'') = Inl FailedDeleteAvatar
   \<and> issued (database (snd (avatars_delete (hero_service profile_delete_fails) ''hero'')))
       = [ReqDelete ''images'' (JArr [JStr ''standard'', JStr ''hero'']),
          ReqDelete ''images'' (JArr [JStr ''profile'', JStr ''hero'']),
          ReqIndexKeys ''images'' ''avatarKey'' (JStr ''hero'')]
   \<and> rows (database (snd (avatars_delete (hero_service profile_delete_fails) ''hero''))) ''abstracts''
       = [(JStr ''hero'', JObj [(''key'', JStr ''hero''), (''description'', JStr ''A hero'')])]"
  by code_simp


subsection \<open>Ingestion with one image that cannot be fetched\<close>

text \<open>
  The strings of the scenario match no injection pattern, so the pattern objects stay as
  they are in a new service. The facts about single strings are evaluated first; the run
  of the service is put together from them.
\<close>

lemma partial_strings_clean:
  "some_test INJECTION_PATTERNS ''partial-avatar'' = (False, INJECTION_PATTERNS)"
  "some_test INJECTION_PATTERNS ''Avatar with some failing images'' = (False, INJECTION_PATTERNS)"
  "some_test INJECTION_PATTERNS ''url'' = (False, INJECTION_PATTERNS)"
  "some_test INJECTION_PATTERNS ''standard'' = (False, INJECTION_PATTERNS)"
  "some_test INJECTION_PATTERNS ''broken'' = (False, INJECTION_PATTERNS)"
  "some_test INJECTION_PATTERNS ''https://example.com/working-image.png'' = (False, INJECTION_PATTERNS)"
  "some_test INJECTION_PATTERNS ''https://example.com/broken-image.png'' = (False, INJECTION_PATTERNS)"
  "some_test INJECTION_PATTERNS ''https://example.com/partial-manifest.json'' = (False, INJECTION_PATTERNS)"
  by code_simp+

lemma partial_strings_html:
  "sanitizeHtml ''partial-avatar'' = ''partial-avatar''"
  "sanitizeHtml ''Avatar with some failing images'' = ''Avatar with some failing images''"
  "sanitizeHtml ''url'' = ''url''"
  "sanitizeHtml ''standard'' = ''standard''"
  "sanitizeHtml ''broken'' = ''broken''"
  "sanitizeHtml ''https://example.com/working-image.png'' = ''https:&#x2F;&#x2F;example.com&#x2F;working-image.png''"
  "sanitizeHtml ''https://example.com/broken-image.png'' = ''https:&#x2F;&#x2F;example.com&#x2F;broken-image.png''"
  "sanitizeHtml ''https://example.com/partial-manifest.json'' = ''https:&#x2F;&#x2F;example.com&#x2F;partial-manifest.json''"
  by code_simp+

lemma partial_urls_valid:
  "validateUrl (map_of known_urls) (JStr ''https://example.com/partial-manifest.json'') = valid None"
  "validateUrl (map_of known_urls) (JStr ''https://example.com/working-image.png'') = valid None"
  "validateUrl (map_of known_urls) (JStr ''https://example.com/broken-image.png'') = valid None"
  "validateUrl (map_of known_urls) (JStr ''https:&#x2F;&#x2F;example.com&#x2F;working-image.png'') = invalid [InvalidUrlFormat]"
  "validateUrl (map_of known_urls) (JStr ''https:&#x2F;&#x2F;example.com&#x2F;broken-image.png'') = invalid [InvalidUrlFormat]"
  "validateUrl (map_of lenient_urls) (JStr ''https://example.com/partial-manifest.json'') = valid None"
  "validateUrl (map_of lenient_urls) (JStr ''https://example.com/working-image.png'') = valid None"
  "validateUrl (map_of lenient_urls) (JStr ''https://example.com/broken-image.png'') = valid None"
  "validateUrl (map_of lenient_urls) (JStr ''https:&#x2F;&#x2F;example.com&#x2F;working-image.png'') = valid None"
  "validateUrl (map_of lenient_urls) (JStr ''https:&#x2F;&#x2F;example.com&#x2F;broken-image.png'') = valid None"
  by code_simp+

lemma safe_keys:
  "\<not> is_dangerous ''key''" "\<not> is_dangerous ''description''" "\<not> is_dangerous ''images''"
  "\<not> is_dangerous ''type''" "\<not> is_dangerous ''source''" "\<not> is_dangerous ''avatarKey''"
  "\<not> is_dangerous ''blob''"
  by code_simp+

lemma sanitize_partial_manifest:
  "sanitizeObject INJECTION_PATTERNS partial_manifest 0
     = (Inr sanitized_partial_manifest, INJECTION_PATTERNS)"
  by (simp add: partial_manifest_def sanitized_partial_manifest_def sanitizeObject_object
        sanitizeObject_array sanitizeObject_clean_string partial_strings_clean partial_strings_html
        safe_keys)

lemma partial_manifest_valid:
  assumes "validateUrl parse (JStr ''https://example.com/working-image.png'') = valid None"
    and "validateUrl parse (JStr ''https://example.com/broken-image.png'') = valid None"
  shows "validateAvatarManifest INJECTION_PATTERNS parse partial_manifest
           = (valid (Some sanitized_partial_manifest), INJECTION_PATTERNS)"
proof -
  have imgs: "validateImages parse (getProp partial_manifest ''images'') = []"
    using assms by (simp add: partial_manifest_def validateImages_def validateImage_def
        is_string_def valid_def upt_rec)
  have k: "validateString INJECTION_PATTERNS (getProp partial_manifest ''key'') 64
             = (valid (Some (JStr ''partial-avatar'')), INJECTION_PATTERNS)"
    by (simp add: partial_manifest_def validateString_clean partial_strings_clean partial_strings_html)
  have d: "validateString INJECTION_PATTERNS (getProp partial_manifest ''description'') 500
             = (valid (Some (JStr ''Avatar with some failing images'')), INJECTION_PATTERNS)"
    by (simp add: partial_manifest_def validateString_clean partial_strings_clean partial_strings_html)
  have t: "truthy partial_manifest" "is_object partial_manifest"
     "truthy (getProp partial_manifest ''key'')" "is_string (getProp partial_manifest ''key'')"
     "truthy (getProp partial_manifest ''description'')" "is_string (getProp partial_manifest ''description'')"
    by (simp_all add: partial_manifest_def is_string_def)
  show ?thesis
    by (simp add: validateAvatarManifest_def t k d imgs requiredFields_def valid_def
          sanitize_partial_manifest)
qed

lemma partial_abstract_data:
  "sanitizeData partial_abstract = partial_abstract"
  by code_simp

lemma sanitize_partial_abstract:
  "sanitizeObject INJECTION_PATTERNS
     (JObj [(''key'', JStr ''partial-avatar''),
            (''description'', JStr ''Avatar with some failing images''),
            (''source'', JStr ''https://example.com/partial-manifest.json'')]) 0
     = (Inr partial_abstract, INJECTION_PATTERNS)"
  by (simp add: partial_abstract_def sanitizeObject_object
        sanitizeObject_clean_string partial_strings_clean partial_strings_html
        safe_keys)

lemma put_partial_abstract:
  "put \<lparr>stores = avatar_stores, rows = (\<lambda>s. []), failing = (\<lambda>r. False), issued = reqs\<rparr>
       ABSTRACTS_STORE partial_abstract JUndefined
     = (Inr (),
        \<lparr>stores = avatar_stores,
         rows = (\<lambda>s. [])(''abstracts'' := [(JStr ''partial-avatar'', partial_abstract)]),
         failing = (\<lambda>r. False),
         issued = ReqPut ''abstracts'' partial_abstract JUndefined # reqs\<rparr>)"
proof -
  have "getProp partial_abstract ''key'' = JStr ''partial-avatar''"
    by (simp add: partial_abstract_def)
  then show ?thesis
    by (simp add: put_def store_names_ok partial_abstract_data engine_def)
       (simp add: ABSTRACTS_STORE_def avatar_stores_def upsert_def)
qed

lemma clear_no_images:
  "clearIndexRun \<lparr>stores = avatar_stores, rows = (\<lambda>s. []), failing = (\<lambda>r. False), issued = reqs\<rparr>
       IMAGES_STORE ''avatarKey'' (JStr k)
     = (Inr (),
        \<lparr>stores = avatar_stores, rows = (\<lambda>s. []), failing = (\<lambda>r. False),
         issued = ReqIndexKeys ''images'' ''avatarKey'' (JStr k) # reqs\<rparr>)"
  by (simp add: clearIndexRun_def engine_def IMAGES_STORE_def avatar_stores_def in_key_order_def)

lemma load_partial_known:
  "loadExtension (partial_env known_urls)
          \<lparr>injectionPatterns = INJECTION_PATTERNS, rateLimits = m,
           database = \<lparr>stores = avatar_stores, rows = (\<lambda>s. []), failing = (\<lambda>r. False), issued = []\<rparr>\<rparr>
          sanitized_partial_manifest (JStr ''https://example.com/partial-manifest.json'') []
     = (Inr (), \<lparr>injectionPatterns = INJECTION_PATTERNS, rateLimits = m, database = partial_db\<rparr>)"
  by (simp add: loadExtension_def clearIndexCheck_def store_names_ok clear_no_images
        put_partial_abstract sanitized_partial_manifest_def sanitize_partial_abstract
        partial_env_def urlImagePut_def partial_urls_valid invalid_def partial_db_def)

lemma download_partial_known:
  "download (partial_env known_urls) new_service ''https://example.com/partial-manifest.json''
     = (Inr (), \<lparr>injectionPatterns = INJECTION_PATTERNS,
                  rateLimits = [''download:https://example.com/partial-manifest.json''
                                  \<mapsto> \<lparr>count = 1, resetTime = 60000\<rparr>],
                  database = partial_db\<rparr>)"
proof -
  have v: "validateAvatarManifest INJECTION_PATTERNS (map_of known_urls) partial_manifest
           = (valid (Some sanitized_partial_manifest), INJECTION_PATTERNS)"
    by (rule partial_manifest_valid) (rule partial_urls_valid)+
  have e: "urlParser (partial_env known_urls) = map_of known_urls"
     "clock (partial_env known_urls) = 0"
     "httpJson (partial_env known_urls) ''https://example.com/partial-manifest.json'' = Inr partial_manifest"
    by (simp_all add: partial_env_def)
  show ?thesis
    by (simp add: download_def e partial_urls_valid valid_def [of None] checkRateLimit_def
          new_service_def v)
       (simp add: valid_def load_partial_known)
qed

lemma load_partial_lenient:
  "fst (loadExtension (partial_env lenient_urls)
          \<lparr>injectionPatterns = INJECTION_PATTERNS,
           rateLimits = [''download:https://example.com/partial-manifest.json''
                                  \<mapsto> \<lparr>count = 1, resetTime = 60000\<rparr>],
           database = \<lparr>stores = avatar_stores, rows = (\<lambda>s. []), failing = (\<lambda>r. False), issued = []\<rparr>\<rparr>
          sanitized_partial_manifest (JStr ''https://example.com/partial-manifest.json'') []) = Inr ()
   \<and> database (snd (loadExtension (partial_env lenient_urls)
          \<lparr>injectionPatterns = INJECTION_PATTERNS,
           rateLimits = [''download:https://example.com/partial-manifest.json''
                                  \<mapsto> \<lparr>count = 1, resetTime = 60000\<rparr>],
           database = \<lparr>stores = avatar_stores, rows = (\<lambda>s. []), failing = (\<lambda>r. False), issued = []\<rparr>\<rparr>
          sanitized_partial_manifest (JStr ''https://example.com/partial-manifest.json'') [])) = partial_db"
  by (simp add: loadExtension_def clearIndexCheck_def store_names_ok clear_no_images
        put_partial_abstract sanitized_partial_manifest_def sanitize_partial_abstract
        partial_env_def urlImagePut_def partial_urls_valid valid_def [of None] partial_db_def
        checkRateLimit_def)

lemma download_partial_lenient:
  "fst (download (partial_env lenient_urls) new_service ''https://example.com/partial-manifest.json'') = Inr ()
   \<and> database (snd (download (partial_env lenient_urls) new_service
                        ''https://example.com/partial-manifest.json'')) = partial_db"
proof -
  have v: "validateAvatarManifest INJECTION_PATTERNS (map_of lenient_urls) partial_manifest
           = (valid (Some sanitized_partial_manifest), INJECTION_PATTERNS)"
    by (rule partial_manifest_valid) (rule partial_urls_valid)+
  have e: "urlParser (partial_env lenient_urls) = map_of lenient_urls"
     "clock (partial_env lenient_urls) = 0"
     "httpJson (partial_env lenient_urls) ''https://example.com/partial-manifest.json'' = Inr partial_manifest"
    by (simp_all add: partial_env_def)
  obtain r s' where l: "loadExtension (partial_env lenient_urls)
          \<lparr>injectionPatterns = INJECTION_PATTERNS,
           rateLimits = [''download:https://example.com/partial-manifest.json''
                                  \<mapsto> \<lparr>count = 1, resetTime = 60000\<rparr>],
           database = \<lparr>stores = avatar_stores, rows = (\<lambda>s. []), failing = (\<lambda>r. False), issued = []\<rparr>\<rparr>
          sanitized_partial_manifest (JStr ''https://example.com/partial-manifest.json'') [] = (r, s')"
    by (cases "loadExtension (partial_env lenient_urls)
          \<lparr>injectionPatterns = INJECTION_PATTERNS,
           rateLimits = [''download:https://example.com/partial-manifest.json''
                                  \<mapsto> \<lparr>count = 1, resetTime = 60000\<rparr>],
           database = \<lparr>stores = avatar_stores, rows = (\<lambda>s. []), failing = (\<lambda>r. False), issued = []\<rparr>\<rparr>
          sanitized_partial_manifest (JStr ''https://example.com/partial-manifest.json'') []")
  with load_partial_lenient have r: "r = Inr ()" and d: "database s' = partial_db" by simp_all
  show ?thesis
    by (simp add: download_def e partial_urls_valid valid_def [of None] checkRateLimit_def
          new_service_def v)
       (simp add: valid_def l r d)
qed

text \<open>
  Claim C6 says that after the ingestion of a manifest with one reachable and one
  unreachable image URL exactly one ImageRecord exists. The ingestion succeeds and
  \<open>getAbstracts\<close> returns the abstract, but the store of the images is empty: the
  manifest that \<open>loadExtension\<close> receives is the sanitized one, in which every slash of an
  image address is the entity \<open>&#x2F;\<close>, so the service never asks for the address that
  answers. This holds with both parsers: where the parser rejects the rewritten address
  the image is left out at once, where it accepts the address the request fails. The
  integration test "should handle partial download failures gracefully" expects the
  requests at the addresses of the manifest.
\<close>

theorem download_partial_manifest_stores_no_image:
  "fst (download (partial_env known_urls) new_service ''https://example.com/partial-manifest.json'') = Inr ()
   \<and> fst (getAbstracts (snd (download (partial_env known_urls) new_service
                                  ''https://example.com/partial-manifest.json''))) = Inr (JArr [partial_abstract])
   \<and> rows (database (snd (download (partial_env known_urls) new_service
                              ''https://example.com/partial-manifest.json''))) IMAGES_STORE = []
   \<and> fst (download (partial_env lenient_urls) new_service ''https://example.com/partial-manifest.json'') = Inr ()
   \<and> fst (getAbstracts (snd (download (partial_env lenient_urls) new_service
                                  ''https://example.com/partial-manifest.json''))) = Inr (JArr [partial_abstract])
   \<and> rows (database (snd (download (partial_env lenient_urls) new_service
                              ''https://example.com/partial-manifest.json''))) IMAGES_STORE = []"
proof -
  have g: "fst (getAll partial_db ABSTRACTS_STORE) = Inr (JArr [partial_abstract])"
    by (simp add: getAll_def store_names_ok engine_def partial_db_def in_key_order_def)
       (simp add: ABSTRACTS_STORE_def avatar_stores_def in_key_order_def)
  have i: "rows partial_db IMAGES_STORE = []"
    by (simp add: partial_db_def IMAGES_STORE_def)
  from g i download_partial_lenient show ?thesis
    by (simp add: download_partial_known getAbstracts_def)
qed

subsection \<open>Ingestion of a manifest with a script in the key\<close>

lemma test_g_source: "source (snd (test_g p s)) = source p"
  by (simp add: test_g_def split: option.splits prod.splits)

lemma some_test_sources: "map source (snd (some_test ps s)) = map source ps"
proof (induction ps)
  case Nil
  then show ?case by simp
next
  case (Cons p ps)
  obtain b p' where t: "test_g p s = (b, p')" by (cases "test_g p s")
  with test_g_source [of p s] have "source p' = source p" by simp
  with Cons t show ?case by (cases b) (auto split: prod.splits)
qed

lemma validateString_sources: "map source (snd (validateString ps v n)) = map source ps"
proof (cases v)
  case (JStr s)
  obtain b ps' where t: "some_test ps s = (b, ps')" by (cases "some_test ps s")
  with some_test_sources [of ps s] have "map source ps' = map source ps" by simp
  with JStr t show ?thesis by (cases b) (auto simp: validateString.simps)
qed (simp_all add: validateString.simps)

lemma sanitize_sources:
  "map source (snd (sanitizeObject ps obj depth)) = map source ps"
  "map source (snd (sanitizeItems ps xs d)) = map source ps"
  "map source (snd (sanitizeEntries ps es d)) = map source ps"
proof (induction ps obj depth and ps xs d and ps es d
       rule: sanitizeObject_sanitizeItems_sanitizeEntries.induct)
  case (1 ps obj depth)
  note so = sanitizeObject.simps [of ps _ depth]
  show ?case
  proof (cases "depth > MAX_OBJECT_DEPTH")
    case True
    then show ?thesis by (simp add: so)
  next
    case False
    show ?thesis
    proof (cases obj)
      case (JArr xs)
      show ?thesis
      proof (cases "length xs > MAX_ARRAY_LENGTH")
        case True
        with False JArr show ?thesis by (simp add: so)
      next
        case long: False
        from "1.IH"(1) [OF False JArr long] False JArr long show ?thesis
          by (auto simp: so split: prod.splits sum.splits)
      qed
    next
      case (JStr s)
      with False validateString_sources [of ps "JStr s" MAX_STRING_LENGTH] show ?thesis
        by (auto simp: so split: prod.splits option.splits)
    next
      case (JObj es)
      show ?thesis
      proof (cases "isValid (validateObjectKeys obj)")
        case True
        from "1.IH"(2) [OF False JObj refl] True False JObj show ?thesis
          by (auto simp: so Let_def split: prod.splits)
      next
        case bad: False
        with False JObj show ?thesis by (simp add: so Let_def)
      qed
    qed (use False in \<open>auto simp: so Let_def\<close>)
  qed
next
  case (2 ps d)
  then show ?case by simp
next
  case (3 ps x xs d)
  obtain r ps1 where o: "sanitizeObject ps x d = (r, ps1)" by (cases "sanitizeObject ps x d")
  with "3.IH"(1) have s1: "map source ps1 = map source ps" by simp
  show ?case
  proof (cases r)
    case (Inl e)
    with o s1 show ?thesis by simp
  next
    case (Inr y)
    from "3.IH"(2) [OF o [symmetric] Inr]
    have "map source (snd (sanitizeItems ps1 xs d)) = map source ps1" .
    with o s1 Inr show ?thesis
      by (auto split: prod.splits sum.splits)
  qed
next
  case (4 ps d)
  then show ?case by simp
next
  case (5 ps key v es d)
  show ?case
  proof (cases "is_dangerous key")
    case True
    with "5.IH"(1) show ?thesis by simp
  next
    case False
    obtain r ps1 where o: "sanitizeObject ps v d = (r, ps1)" by (cases "sanitizeObject ps v d")
    with "5.IH"(2) False have s1: "map source ps1 = map source ps" by simp
    show ?thesis
    proof (cases r)
      case (Inl e)
      from "5.IH"(3) [OF False o [symmetric] Inl]
      have "map source (snd (sanitizeEntries ps1 es d)) = map source ps1" .
      with o s1 Inl False show ?thesis by simp
    next
      case (Inr y)
      from "5.IH"(4) [OF False o [symmetric] Inr]
      have "map source (snd (sanitizeEntries ps1 es d)) = map source ps1" .
      with o s1 Inr False show ?thesis
        by (auto split: prod.splits)
    qed
  qed
qed

lemma rx_find_tl: "rx_find r (c # t) = None \<Longrightarrow> rx_find r t = None"
  by (auto simp: rx_find.simps [of r "c # t"] split: list.splits)

lemma rx_find_drop: "rx_find r s = None \<Longrightarrow> rx_find r (drop i s) = None"
proof (induction i arbitrary: s)
  case 0
  then show ?case by simp
next
  case (Suc i)
  show ?case
  proof (cases s)
    case Nil
    with Suc.prems show ?thesis by simp
  next
    case (Cons c t)
    with Suc.prems have "rx_find r t = None" by (simp only: rx_find_tl)
    from Suc.IH [OF this] Cons show ?thesis by simp
  qed
qed

lemma test_g_no_match: "rx_find (source p) s = None \<Longrightarrow> fst (test_g p s) = False"
  using rx_find_drop [of "source p" s "lastIndex p"] by (simp add: test_g_def)

lemma some_test_no_match:
  "\<forall>r\<in>set (map source ps). rx_find r s = None \<Longrightarrow> fst (some_test ps s) = False"
proof (induction ps)
  case Nil
  then show ?case by simp
next
  case (Cons p ps)
  obtain b p' where t: "test_g p s = (b, p')" by (cases "test_g p s")
  from Cons.prems have "rx_find (source p) s = None" by simp
  with t test_g_no_match [of p s] have b: "b = False" by simp
  from Cons.prems have "\<forall>r\<in>set (map source ps). rx_find r s = None" by simp
  from Cons.IH [OF this] have "fst (some_test ps s) = False" .
  with t b show ?case by (auto split: prod.splits)
qed

lemma script_key_no_injection: "\<forall>r\<in>set INJECTION_SOURCES. rx_find r script_key = None"
  by code_simp

lemma script_key_html: "sanitizeHtml script_key = []"
  by code_simp

lemma script_key_length: "length script_key = 25"
  by (simp add: script_key_def)

lemma validateString_script_key:
  assumes "map source ps = INJECTION_SOURCES" and "25 \<le> n"
  shows "fst (validateString ps (JStr script_key) n) = valid (Some (JStr []))"
proof -
  from assms(1) script_key_no_injection have "fst (some_test ps script_key) = False"
    by (intro some_test_no_match) simp
  then obtain ps' where "some_test ps script_key = (False, ps')"
    by (cases "some_test ps script_key") auto
  with assms(2) show ?thesis by (simp add: validateString.simps script_key_length script_key_html)
qed

lemma sanitizeObject_script_key:
  assumes "map source ps = INJECTION_SOURCES" and "d \<le> 10"
  shows "fst (sanitizeObject ps (JStr script_key) d) = Inr (JStr [])"
proof -
  obtain r ps' where v: "validateString ps (JStr script_key) MAX_STRING_LENGTH = (r, ps')"
    by (cases "validateString ps (JStr script_key) MAX_STRING_LENGTH")
  with validateString_script_key [OF assms(1), of MAX_STRING_LENGTH]
  have "r = valid (Some (JStr []))" by (simp add: MAX_STRING_LENGTH_def)
  with v assms(2) show ?thesis
    by (simp add: sanitizeObject.simps MAX_OBJECT_DEPTH_def valid_def)
qed

lemma sanitizeEntries_script_key:
  assumes "map source ps = INJECTION_SOURCES" and "d \<le> 10"
    and "map_of es k = Some (JStr script_key)" and "\<not> is_dangerous k"
  shows "map_of (fst (sanitizeEntries ps es d)) k = Some (JStr [])"
  using assms
proof (induction es arbitrary: ps)
  case Nil
  then show ?case by simp
next
  case (Cons e es)
  obtain key v where e: "e = (key, v)" by (cases e)
  obtain r ps1 where o: "sanitizeObject ps v d = (r, ps1)" by (cases "sanitizeObject ps v d")
  with sanitize_sources(1) [of ps v d] Cons.prems(1) have s1: "map source ps1 = INJECTION_SOURCES"
    by simp
  obtain es1 ps2 where r1: "sanitizeEntries ps1 es d = (es1, ps2)" by (cases "sanitizeEntries ps1 es d")
  show ?case
  proof (cases "key = k")
    case True
    with Cons.prems(3) e have v: "v = JStr script_key" by simp
    with sanitizeObject_script_key [OF Cons.prems(1,2)] o have "r = Inr (JStr [])" by simp
    with e o r1 True Cons.prems(4) show ?thesis by simp
  next
    case False
    with Cons.prems(3) e have m: "map_of es k = Some (JStr script_key)" by simp
    from Cons.IH [OF s1 Cons.prems(2) m Cons.prems(4)] r1 have 1: "map_of es1 k = Some (JStr [])" by simp
    from Cons.IH [OF Cons.prems(1,2) m Cons.prems(4)]
    have 2: "map_of (fst (sanitizeEntries ps es d)) k = Some (JStr [])" .
    from e o r1 False 1 2 show ?thesis
      by (cases r) auto
  qed
qed

lemma loadExtension_empty_key:
  "getProp def ''key'' = JStr [] \<Longrightarrow>
   loadExtension e s def src files = (Inl (ExtensionLoadingFailed IndexQueryEmpty), s)"
  by (simp add: loadExtension_def clearIndexCheck_def store_names_ok)

lemma validateAvatarManifest_valid:
  assumes "truthy def" and "is_object def"
    and "isValid (fst (validateAvatarManifest ps parse def))"
  shows "\<exists>ps2 v. map source ps2 = map source ps
            \<and> fst (sanitizeObject ps2 def 0) = Inr v
            \<and> fst (validateAvatarManifest ps parse def) = valid (Some v)"
proof -
  let ?kv = "if truthy (getProp def ''key'')
             then (case validateString ps (getProp def ''key'') 64 of
                     (keyValidation, ps') \<Rightarrow>
                       (if \<not> isValid keyValidation then [ManifestKey (errors keyValidation)] else [],
                        ps'))
             else ([], ps)"
  obtain e2 ps1 where kv: "?kv = (e2, ps1)" by (cases ?kv)
  have s1: "map source ps1 = map source ps"
    using kv validateString_sources [of ps "getProp def ''key''" 64]
    by (auto split: if_splits prod.splits)
  let ?dv = "if truthy (getProp def ''description'')
             then (case validateString ps1 (getProp def ''description'') 500 of
                     (descValidation, ps') \<Rightarrow>
                       (if \<not> isValid descValidation
                        then [ManifestDescription (errors descValidation)] else [],
                        ps'))
             else ([], ps1)"
  obtain e3 ps2 where dv: "?dv = (e3, ps2)" by (cases ?dv)
  have s2: "map source ps2 = map source ps"
    using dv s1 validateString_sources [of ps1 "getProp def ''description''" 500]
    by (auto split: if_splits prod.splits)
  obtain r3 ps3 where so: "sanitizeObject ps2 def 0 = (r3, ps3)" by (cases "sanitizeObject ps2 def 0")
  define e14 where "e14 = concat (map (\<lambda>field.
                          if \<not> truthy (getProp def field) \<or> \<not> is_string (getProp def field)
                          then [RequiredField field] else []) requiredFields)
                      @ e2 @ e3 @ validateImages parse (getProp def ''images'')"
  have unfold: "validateAvatarManifest ps parse def
      = (if length e14 > 0 then (invalid e14, ps2)
         else (case r3 of Inr v \<Rightarrow> (valid (Some v), ps3)
                        | Inl error \<Rightarrow> (invalid [SanitizationFailed error], ps3)))"
    apply (simp only: validateAvatarManifest_def Let_def assms(1,2) simp_thms if_False)
    apply (simp only: kv prod.case)
    apply (simp only: dv prod.case)
    apply (simp only: so e14_def [symmetric] prod.case)
    done
  show ?thesis
  proof (cases "length e14 > 0")
    case True
    with unfold assms(3) show ?thesis by (simp add: invalid_def)
  next
    case False
    with unfold assms(3) obtain v where "r3 = Inr v" by (cases r3) (auto simp: invalid_def)
    with unfold False so s2 show ?thesis by auto
  qed
qed

lemma validated_script_key_is_empty:
  assumes "map source ps = INJECTION_SOURCES" and "getProp def ''key'' = JStr script_key"
    and "isValid (fst (validateAvatarManifest ps parse def))"
  shows "\<exists>v. sanitizedValue (fst (validateAvatarManifest ps parse def)) = Some v
              \<and> getProp v ''key'' = JStr []"
proof -
  from assms(2) obtain es where def: "def = JObj es" and k: "map_of es ''key'' = Some (JStr script_key)"
    by (cases def) (auto split: option.splits)
  have t: "truthy def" "is_object def" by (simp_all add: def)
  from validateAvatarManifest_valid [OF t assms(3)] assms(1) obtain ps2 v where
    s2: "map source ps2 = INJECTION_SOURCES" and so: "fst (sanitizeObject ps2 def 0) = Inr v"
    and res: "fst (validateAvatarManifest ps parse def) = valid (Some v)"
    by auto
  from so def have v: "v = JObj (fst (sanitizeEntries ps2 es 1))"
    by (auto simp: sanitizeObject.simps [of ps2 "JObj es" 0] Let_def split: if_splits prod.splits)
  have "\<not> is_dangerous ''key''" by (rule safe_keys)
  from sanitizeEntries_script_key [OF s2 _ k this, of 1] v have "getProp v ''key'' = JStr []"
    by simp
  with res show ?thesis by (simp add: valid_def)
qed

lemma script_strings_clean:
  "some_test INJECTION_PATTERNS script_key = (False, INJECTION_PATTERNS)"
  "some_test INJECTION_PATTERNS ''A test avatar'' = (False, INJECTION_PATTERNS)"
  "sanitizeHtml ''A test avatar'' = ''A test avatar''"
  by code_simp+

lemma download_script_key:
  assumes "map source (injectionPatterns s) = INJECTION_SOURCES"
    and "getProp def ''key'' = JStr script_key"
    and "httpJson e url = Inr def"
  shows "(\<exists>err. fst (download e s url) = Inl err) \<and> database (snd (download e s url)) = database s"
proof -
  obtain b m where rl: "checkRateLimit (rateLimits s) (clock e) (''download:'' @ url) 10 60000 = (b, m)"
    by (cases "checkRateLimit (rateLimits s) (clock e) (''download:'' @ url) 10 60000")
  obtain mv ps where mv: "validateAvatarManifest (injectionPatterns s) (urlParser e) def = (mv, ps)"
    by (cases "validateAvatarManifest (injectionPatterns s) (urlParser e) def")
  show ?thesis
  proof (cases "isValid mv")
    case False
    with rl mv assms(3) show ?thesis
      by (cases b) (simp_all add: download_def Let_def)
  next
    case True
    with validated_script_key_is_empty [OF assms(1,2), of "urlParser e"] mv
    obtain v where v: "sanitizedValue mv = Some v" and k: "getProp v ''key'' = JStr []"
      by auto
    from rl mv assms(3) True v show ?thesis
      by (cases b) (simp_all add: download_def Let_def loadExtension_empty_key [OF k])
  qed
qed

lemma import_script_key:
  assumes "map source (injectionPatterns s) = INJECTION_SOURCES"
    and "getProp def ''key'' = JStr script_key"
    and "jsonParse e (file_text file) = Some def"
  shows "(\<exists>err. fst (avatars_import e s [file] imageFiles) = Inl err)
         \<and> database (snd (avatars_import e s [file] imageFiles)) = database s"
proof -
  obtain mv ps where mv: "validateAvatarManifest (injectionPatterns s) (urlParser e) def = (mv, ps)"
    by (cases "validateAvatarManifest (injectionPatterns s) (urlParser e) def")
  have m: "(\<exists>err. fst (importManifest e imageFiles s file) = Inl err)
           \<and> database (snd (importManifest e imageFiles s file)) = database s"
  proof (cases "isValid mv")
    case False
    with mv assms(3) show ?thesis
      by (simp add: importManifest_def Let_def)
  next
    case True
    with validated_script_key_is_empty [OF assms(1,2), of "urlParser e"] mv
    obtain v where v: "sanitizedValue mv = Some v" and k: "getProp v ''key'' = JStr []"
      by auto
    from mv assms(3) True v show ?thesis
      by (simp add: importManifest_def Let_def loadExtension_empty_key [OF k])
  qed
  obtain r s' where i: "importManifest e imageFiles s file = (r, s')"
    by (cases "importManifest e imageFiles s file")
  with m obtain err where "r = Inl err" and "database s' = database s" by auto
  with i show ?thesis
    by (simp add: avatars_import_def)
qed

text \<open>
  Claim C1, as the code has it. In a service whose pattern objects are those of the
  SecurityService, with any \<open>lastIndex\<close>, validateString accepts the key
  \<open><script>alert(1)</script>\<close> and sanitizes it to the empty string. A manifest with this
  key, downloaded or imported as the only manifest file, is rejected with the database as
  it was before, so that no request reached the engine: where the manifest is otherwise
  valid, \<open>loadExtension\<close> stops at the check of \<open>clearIndex\<close>, which refuses an empty index
  query.
\<close>

theorem script_key_rejected_before_any_write:
  assumes "map source (injectionPatterns s) = INJECTION_SOURCES"
    and "getProp def ''key'' = JStr script_key"
  shows "fst (validateString (injectionPatterns s) (JStr script_key) 64) = valid (Some (JStr []))
       \<and> (httpJson e url = Inr def
            \<longrightarrow> (\<exists>err. fst (download e s url) = Inl err)
                \<and> database (snd (download e s url)) = database s)
       \<and> (jsonParse e (file_text file) = Some def
            \<longrightarrow> (\<exists>err. fst (avatars_import e s [file] imageFiles) = Inl err)
                \<and> database (snd (avatars_import e s [file] imageFiles)) = database s)"
  using validateString_script_key [OF assms(1), of 64]
        download_script_key [OF assms] import_script_key [OF assms]
  by simp

theorem script_key_rejected_before_any_write_witness:
  "map source (injectionPatterns (hero_service (\<lambda>r. False))) = INJECTION_SOURCES
   \<and> getProp script_manifest ''key'' = JStr script_key
   \<and> httpJson script_env ''https://example.com/script.json'' = Inr script_manifest
   \<and> jsonParse script_env (file_text script_manifest_file) = Some script_manifest
   \<and> (\<exists>err. fst (download script_env (hero_service (\<lambda>r. False)) ''https://example.com/script.json'') = Inl err)
   \<and> database (snd (download script_env (hero_service (\<lambda>r. False)) ''https://example.com/script.json''))
       = hero_db (\<lambda>r. False)
   \<and> (\<exists>err. fst (avatars_import script_env (hero_service (\<lambda>r. False)) [script_manifest_file] []) = Inl err)
   \<and> database (snd (avatars_import script_env (hero_service (\<lambda>r. False)) [script_manifest_file] []))
       = hero_db (\<lambda>r. False)"
proof -
  have a: "map source (injectionPatterns (hero_service (\<lambda>r. False))) = INJECTION_SOURCES"
    by (simp add: hero_service_def INJECTION_PATTERNS_def comp_def)
  have b: "getProp script_manifest ''key'' = JStr script_key"
    by (simp add: script_manifest_def)
  have c: "httpJson script_env ''https://example.com/script.json'' = Inr script_manifest"
    by (simp add: script_env_def)
  have d: "jsonParse script_env (file_text script_manifest_file) = Some script_manifest"
    by (simp add: script_env_def script_manifest_file_def)
  have e: "database (hero_service (\<lambda>r. False)) = hero_db (\<lambda>r. False)"
    by (simp add: hero_service_def)
  from script_key_rejected_before_any_write [OF a b, of script_env "''https://example.com/script.json''"
         script_manifest_file "[]"] a b c d e
  show ?thesis by simp
qed

text \<open>
  The claim as the spec has it says that manifest validation reports the manifest
  invalid: for the manifest with this key, a description and no images it reports it
  valid, with the empty key in the sanitized value.
\<close>

theorem script_key_manifest_is_valid_counterexample:
  "fst (validateAvatarManifest INJECTION_PATTERNS (urlParser script_env) script_manifest)
     = \<lparr>isValid = True, errors = [],
        sanitizedValue = Some (JObj [(''key'', JStr []), (''description'', JStr ''A test avatar''),
                                     (''images'', JArr [])])\<rparr>"
proof -
  have k: "validateString INJECTION_PATTERNS (JStr script_key) 64
             = (valid (Some (JStr [])), INJECTION_PATTERNS)"
    using validateString_clean [OF script_strings_clean(1), of 64]
    by (simp add: script_key_length script_key_html)
  have d: "validateString INJECTION_PATTERNS (JStr ''A test avatar'') 500
             = (valid (Some (JStr ''A test avatar'')), INJECTION_PATTERNS)"
    using validateString_clean [OF script_strings_clean(2), of 500]
    by (simp add: script_strings_clean)
  have s: "sanitizeObject INJECTION_PATTERNS script_manifest 0
             = (Inr (JObj [(''key'', JStr []), (''description'', JStr ''A test avatar''),
                           (''images'', JArr [])]), INJECTION_PATTERNS)"
    by (simp add: script_manifest_def sanitizeObject_object sanitizeObject_array
          sanitizeObject_clean_string script_strings_clean script_key_html script_key_length
          safe_keys)
  have t: "getProp script_manifest ''key'' = JStr script_key"
     "getProp script_manifest ''description'' = JStr ''A test avatar''"
     "getProp script_manifest ''images'' = JArr []"
     "truthy script_manifest" "is_object script_manifest" "script_key \<noteq> []"
    by (simp_all add: script_manifest_def script_key_def)
  show ?thesis
    by (simp add: validateAvatarManifest_def t k d s requiredFields_def is_string_def
          validateImages_def valid_def)
qed


end
